theory Spec2Isabelle
  imports Complex_Main
begin

text \<open>
  The HTTP API of content-publish-services: Express routers for users, content posts,
  announcements, registered emails and login, each handler a thin wrapper around calls
  to a hosted database, with bcrypt for passwords. The handlers are embedded as trees of
  the calls they await; the database, bcrypt and the clock are the world around them.
\<close>

section \<open>JavaScript values\<close>

text \<open>
  Request bodies, database rows and response payloads are JSON values. \<open>JUndefined\<close> is
  JavaScript's \<open>undefined\<close>: what reading a missing property gives, and what a request
  without a parsed body has as \<open>req.body\<close>. Object fields are kept in insertion order;
  a parsed JSON object has no duplicate keys.
\<close>

datatype json =
    JUndefined
  | JNull
  | JBool bool
  | JNum rat
  | JStr string
  | JArr "json list"
  | JObj "(string \<times> json) list"

datatype js_error = TypeError | Error string

text \<open>Truthiness, as \<open>!x\<close> and \<open>if (x)\<close> and \<open>x || y\<close> read it.\<close>

fun truthy :: "json \<Rightarrow> bool" where
  "truthy JUndefined = False"
| "truthy JNull = False"
| "truthy (JBool b) = b"
| "truthy (JNum n) = (n \<noteq> 0)"
| "truthy (JStr s) = (s \<noteq> [])"
| "truthy (JArr xs) = True"
| "truthy (JObj fs) = True"

text \<open>
  Reading a property of \<open>null\<close> or \<open>undefined\<close>, or destructuring one of them, raises a
  TypeError.
\<close>

fun nullish :: "json \<Rightarrow> bool" where
  "nullish JUndefined = True"
| "nullish JNull = True"
| "nullish v = False"

definition lookup :: "(string \<times> json) list \<Rightarrow> string \<Rightarrow> json" where
  "lookup fs k = (case map_of fs k of None \<Rightarrow> JUndefined | Some v \<Rightarrow> v)"

text \<open>
  \<open>v.k\<close> for a value that is not nullish. The handlers read only the named keys
  password, id, ids, email, created_at, first_name, middle_name, last_name and suffix;
  no array, string, number or boolean has one of them, so these give \<open>undefined\<close>.
\<close>

fun get :: "json \<Rightarrow> string \<Rightarrow> json" where
  "get (JObj fs) k = lookup fs k"
| "get v k = JUndefined"

fun isArray :: "json \<Rightarrow> bool" where
  "isArray (JArr xs) = True"
| "isArray v = False"

text \<open>\<open>ids.length === 0\<close>, evaluated only after \<open>Array.isArray(ids)\<close> held.\<close>

fun length_is_zero :: "json \<Rightarrow> bool" where
  "length_is_zero (JArr xs) = (xs = [])"
| "length_is_zero v = False"

definition omit :: "string \<Rightarrow> (string \<times> json) list \<Rightarrow> (string \<times> json) list" where
  "omit k fs = filter (\<lambda>kv. fst kv \<noteq> k) fs"

text \<open>
  \<open>{ ...fs, k: v }\<close> and \<open>obj.k = v\<close>: an existing key keeps its place and takes the new
  value, a new key goes last.
\<close>

definition set_field :: "string \<Rightarrow> json \<Rightarrow> (string \<times> json) list \<Rightarrow> (string \<times> json) list" where
  "set_field k v fs =
     (if k \<in> set (map fst fs) then map (\<lambda>kv. if fst kv = k then (k, v) else kv) fs
      else fs @ [(k, v)])"

text \<open>
  The own enumerable properties that a spread \<open>{ ...v }\<close> or a rest pattern copies: the
  fields of an object, the indices of an array or a string, nothing for a number or a
  boolean.
\<close>

fun decimal :: "nat \<Rightarrow> string" where
  "decimal n = (if n < 10 then [char_of (48 + n)] else decimal (n div 10) @ [char_of (48 + n mod 10)])"

fun own_fields :: "json \<Rightarrow> (string \<times> json) list" where
  "own_fields (JObj fs) = fs"
| "own_fields (JArr xs) = zip (map decimal [0..<length xs]) xs"
| "own_fields (JStr cs) = zip (map decimal [0..<length cs]) (map (\<lambda>c. JStr [c]) cs)"
| "own_fields v = []"

section \<open>The database client, bcrypt and the clock\<close>

datatype table = Users | ContentPosts | Announcements | RegisteredEmails

text \<open>
  The queries the handlers build with the client:
  \<^item> \<open>SelectAll t\<close>: \<open>from(t).select('*')\<close>
  \<^item> \<open>SelectSingle t c v\<close>: \<open>from(t).select('*').eq(c, v).single()\<close>
  \<^item> \<open>CountRows t\<close>: \<open>from(t).select('*', { count: 'exact', head: true })\<close>
  \<^item> \<open>Insert t rows\<close>: \<open>from(t).insert(rows).select()\<close>
  \<^item> \<open>Update t d c v\<close>: \<open>from(t).update(d).eq(c, v).select()\<close>
  \<^item> \<open>DeleteEq t c v\<close>: \<open>from(t).delete().eq(c, v)\<close>
  \<^item> \<open>DeleteIn t c vs\<close>: \<open>from(t).delete().in(c, vs)\<close>
\<close>

datatype db_call =
    SelectAll table
  | SelectSingle table string json
  | CountRows table
  | Insert table json
  | Update table json string json
  | DeleteEq table string json
  | DeleteIn table string json

text \<open>
  What a query resolves to: \<open>{ data, error, count }\<close>. \<open>error\<close> is \<open>null\<close> or an object
  with a \<open>message\<close>; \<open>count\<close> is \<open>null\<close> or a number.
\<close>

record db_result =
  data :: json
  error :: "string option"
  count :: "int option"

datatype outcome = Responded nat json | Threw js_error

text \<open>
  A handler is a tree of the calls it awaits: each node names the call and continues
  with the answer. \<open>bcrypt.hash\<close> and \<open>bcrypt.compare\<close> return promises that may reject
  (\<open>Inl\<close>); \<open>new Date()\<close> reads the clock in milliseconds.
\<close>

datatype 'a prog =
    Return 'a
  | Db db_call "db_result \<Rightarrow> 'a prog"
  | BcryptHash json nat "js_error + string \<Rightarrow> 'a prog"
  | BcryptCompare json json "js_error + bool \<Rightarrow> 'a prog"
  | NewDate "int \<Rightarrow> 'a prog"

datatype event =
    DbEv db_call db_result
  | HashEv json nat "js_error + string"
  | CompareEv json json "js_error + bool"
  | DateEv int

text \<open>
  The world a handler runs in: the hosted database, bcrypt and the clock, over a state
  of any type. Nothing is assumed about them unless a theorem says so.
\<close>

record 'st env =
  db :: "db_call \<Rightarrow> 'st \<Rightarrow> db_result \<times> 'st"
  bcrypt_hash :: "json \<Rightarrow> nat \<Rightarrow> 'st \<Rightarrow> (js_error + string) \<times> 'st"
  bcrypt_compare :: "json \<Rightarrow> json \<Rightarrow> 'st \<Rightarrow> (js_error + bool) \<times> 'st"
  clock :: "'st \<Rightarrow> int \<times> 'st"

text \<open>
  Running a handler in a world gives its outcome, the calls it made with their answers,
  in order, and the final state.
\<close>

primrec run :: "'st env \<Rightarrow> 'a prog \<Rightarrow> 'st \<Rightarrow> 'a \<times> event list \<times> 'st" where
  "run w (Return x) = (\<lambda>s. (x, [], s))"
| "run w (Db c k) = (\<lambda>s.
     case db w c s of (r, s1) \<Rightarrow>
       (case run w (k r) s1 of (x, tr, s2) \<Rightarrow> (x, DbEv c r # tr, s2)))"
| "run w (BcryptHash p n k) = (\<lambda>s.
     case bcrypt_hash w p n s of (r, s1) \<Rightarrow>
       (case run w (k r) s1 of (x, tr, s2) \<Rightarrow> (x, HashEv p n r # tr, s2)))"
| "run w (BcryptCompare p h k) = (\<lambda>s.
     case bcrypt_compare w p h s of (r, s1) \<Rightarrow>
       (case run w (k r) s1 of (x, tr, s2) \<Rightarrow> (x, CompareEv p h r # tr, s2)))"
| "run w (NewDate k) = (\<lambda>s.
     case clock w s of (r, s1) \<Rightarrow>
       (case run w (k r) s1 of (x, tr, s2) \<Rightarrow> (x, DateEv r # tr, s2)))"

section \<open>The handlers\<close>

definition error_json :: "string \<Rightarrow> json" where
  "error_json m = JObj [(''error'', JStr m)]"

text \<open>
  The tail shared by most handlers:
  \<^verbatim>\<open>if (error) return res.status(bad).json({ error: error.message }); res.status(good).json(data);\<close>
  (\<open>res.json\<close> alone answers 200).
\<close>

definition send_result :: "nat \<Rightarrow> nat \<Rightarrow> db_result \<Rightarrow> outcome prog" where
  "send_result bad good r =
     (case error r of
        Some m \<Rightarrow> Return (Responded bad (error_json m))
      | None \<Rightarrow> Return (Responded good (data r)))"

text \<open>\<open>count || 0\<close>\<close>

definition count_or_zero :: "db_result \<Rightarrow> int" where
  "count_or_zero r = (case count r of None \<Rightarrow> 0 | Some c \<Rightarrow> c)"

subsection \<open>Users\<close>

definition get_all_users :: "outcome prog" where
  "get_all_users = Db (SelectAll Users) (send_result 500 200)"

definition get_user :: "string \<Rightarrow> outcome prog" where
  "get_user pid = Db (SelectSingle Users ''id'' (JStr pid)) (send_result 404 200)"

definition create_user :: "json \<Rightarrow> outcome prog" where
  "create_user body =
     (if nullish body then Return (Threw TypeError)
      else if \<not> truthy (get body ''password'')
      then Return (Responded 400 (error_json ''Password is required.''))
      else BcryptHash (get body ''password'') 10 (\<lambda>h.
        case h of
          Inl e \<Rightarrow> Return (Threw e)
        | Inr hashedPassword \<Rightarrow>
            Db (CountRows Users) (\<lambda>c.
              case error c of
                Some m \<Rightarrow> Return (Responded 500 (error_json m))
              | None \<Rightarrow>
                  if count_or_zero c + 1 > 10
                  then Return (Responded 400 (error_json ''Total users cannot exceed 10.''))
                  else Db (Insert Users
                             (JArr [JObj (set_field ''password'' (JStr hashedPassword)
                                            (omit ''password'' (own_fields body)))]))
                          (send_result 400 201))))"

text \<open>
  \<open>users.map(async (user) => ...)\<close> runs every callback up to its first \<open>await\<close>, in
  index order: an element that is \<open>null\<close> or has no truthy password gives a promise that
  is rejected at once, any other element starts \<open>bcrypt.hash\<close>. \<open>Promise.all\<close> rejects
  with the rejection that happens first: one made at once before one that bcrypt
  delivers later.
\<close>

datatype settled = Fulfilled json | RejectedAtOnce js_error | RejectedLater js_error

fun hash_each :: "json list \<Rightarrow> (settled list \<Rightarrow> 'a prog) \<Rightarrow> 'a prog" where
  "hash_each [] k = k []"
| "hash_each (user # users) k =
     (if nullish user then hash_each users (\<lambda>ps. k (RejectedAtOnce TypeError # ps))
      else if \<not> truthy (get user ''password'')
      then hash_each users
             (\<lambda>ps. k (RejectedAtOnce (Error ''Password is required for all users.'') # ps))
      else BcryptHash (get user ''password'') 10 (\<lambda>h.
        hash_each users (\<lambda>ps.
          k ((case h of
                Inl e \<Rightarrow> RejectedLater e
              | Inr hashedPassword \<Rightarrow>
                  Fulfilled (JObj (set_field ''password'' (JStr hashedPassword)
                                     (omit ''password'' (own_fields user))))) # ps))))"

fun rejected_at_once :: "settled list \<Rightarrow> js_error option" where
  "rejected_at_once [] = None"
| "rejected_at_once (RejectedAtOnce e # ps) = Some e"
| "rejected_at_once (p # ps) = rejected_at_once ps"

fun rejected_later :: "settled list \<Rightarrow> js_error option" where
  "rejected_later [] = None"
| "rejected_later (RejectedLater e # ps) = Some e"
| "rejected_later (p # ps) = rejected_later ps"

fun fulfilled :: "settled list \<Rightarrow> json list" where
  "fulfilled [] = []"
| "fulfilled (Fulfilled v # ps) = v # fulfilled ps"
| "fulfilled (p # ps) = fulfilled ps"

definition promise_all :: "settled list \<Rightarrow> js_error + json list" where
  "promise_all ps =
     (case rejected_at_once ps of
        Some e \<Rightarrow> Inl e
      | None \<Rightarrow> (case rejected_later ps of Some e \<Rightarrow> Inl e | None \<Rightarrow> Inr (fulfilled ps)))"

definition create_users :: "json \<Rightarrow> outcome prog" where
  "create_users body =
     (case body of
        JArr users \<Rightarrow>
          hash_each users (\<lambda>ps.
            case promise_all ps of
              Inl e \<Rightarrow> Return (Threw e)
            | Inr usersWithHashedPasswords \<Rightarrow>
                Db (CountRows Users) (\<lambda>c.
                  case error c of
                    Some m \<Rightarrow> Return (Responded 500 (error_json m))
                  | None \<Rightarrow>
                      if count_or_zero c + int (length users) > 10
                      then Return (Responded 400 (error_json ''Total users cannot exceed 10.''))
                      else Db (Insert Users (JArr usersWithHashedPasswords))
                              (send_result 400 201)))
      | _ \<Rightarrow> Return (Responded 400 (error_json ''Request body must be an array of users.'')))"

definition update_user :: "json \<Rightarrow> outcome prog" where
  "update_user body =
     (if nullish body then Return (Threw TypeError)
      else if \<not> truthy (get body ''id'')
      then Return (Responded 400 (error_json ''User ID is required in the request body.''))
      else if truthy (lookup (omit ''id'' (own_fields body)) ''password'')
      then BcryptHash (lookup (omit ''id'' (own_fields body)) ''password'') 10 (\<lambda>h.
        case h of
          Inl e \<Rightarrow> Return (Threw e)
        | Inr hashedPassword \<Rightarrow>
            Db (Update Users
                  (JObj (set_field ''password'' (JStr hashedPassword)
                           (omit ''id'' (own_fields body))))
                  ''id'' (get body ''id''))
               (send_result 400 200))
      else Db (Update Users (JObj (omit ''id'' (own_fields body))) ''id'' (get body ''id''))
              (send_result 400 200))"

definition delete_user :: "string \<Rightarrow> outcome prog" where
  "delete_user pid = Db (DeleteEq Users ''id'' (JStr pid)) (send_result 400 200)"

definition delete_users :: "json \<Rightarrow> outcome prog" where
  "delete_users body =
     (if nullish body then Return (Threw TypeError)
      else Db (DeleteIn Users ''id'' (get body ''ids'')) (send_result 400 200))"

subsection \<open>Auth\<close>

definition userData :: "json \<Rightarrow> json" where
  "userData user =
     JObj [(''id'', get user ''id''),
           (''email'', get user ''email''),
           (''first_name'', get user ''first_name''),
           (''middle_name'', get user ''middle_name''),
           (''last_name'', get user ''last_name''),
           (''suffix'', get user ''suffix'')]"

definition login :: "json \<Rightarrow> outcome prog" where
  "login body =
     (if nullish body then Return (Threw TypeError)
      else if \<not> truthy (get body ''email'') \<or> \<not> truthy (get body ''password'')
      then Return (Responded 400 (error_json ''Email and password are required.''))
      else Db (SelectSingle Users ''email'' (get body ''email'')) (\<lambda>r.
        if error r \<noteq> None \<or> \<not> truthy (data r)
        then Return (Responded 401 (error_json ''Invalid email or password.''))
        else BcryptCompare (get body ''password'') (get (data r) ''password'') (\<lambda>v.
          case v of
            Inl e \<Rightarrow> Return (Threw e)
          | Inr valid \<Rightarrow>
              if \<not> valid
              then Return (Responded 401 (error_json ''Invalid email or password.''))
              else Return (Responded 200
                     (JObj [(''message'', JStr ''Login successful''),
                            (''userData'', userData (data r))])))))"

subsection \<open>Announcements\<close>

text \<open>
  \<open>new Date(x)\<close> is a function of \<open>x\<close> alone: the time in milliseconds, or no time
  (an Invalid Date, whose arithmetic is NaN and compares false). The handler takes it as
  the parameter \<open>parse\<close>. Times are whole milliseconds, and \<open>Math.floor\<close> of the quotient
  is integer division, which rounds down (the floating-point quotient gives the same
  whole number of days for any two times less than 180 000 years apart).
\<close>

definition diffDays :: "int \<Rightarrow> int \<Rightarrow> int" where
  "diffDays now createdAt = (now - createdAt) div (1000 * 60 * 60 * 24)"

definition expired :: "int \<Rightarrow> int option \<Rightarrow> string" where
  "expired now createdAt =
     (case createdAt of
        None \<Rightarrow> ''false''
      | Some t \<Rightarrow> if diffDays now t > 15 then ''true'' else ''false'')"

definition processed :: "(json \<Rightarrow> int option) \<Rightarrow> int \<Rightarrow> json \<Rightarrow> json" where
  "processed parse now item =
     JObj (set_field ''expired'' (JStr (expired now (parse (get item ''created_at''))))
             (own_fields item))"

definition get_all_announcements :: "(json \<Rightarrow> int option) \<Rightarrow> outcome prog" where
  "get_all_announcements parse =
     Db (SelectAll Announcements) (\<lambda>r.
       case error r of
         Some m \<Rightarrow> Return (Responded 500 (error_json m))
       | None \<Rightarrow>
           NewDate (\<lambda>now.
             case data r of
               JArr items \<Rightarrow>
                 if list_ex nullish items then Return (Threw TypeError)
                 else Return (Responded 200 (JArr (map (processed parse now) items)))
             | _ \<Rightarrow> Return (Threw TypeError)))"

definition get_announcement :: "string \<Rightarrow> outcome prog" where
  "get_announcement pid = Db (SelectSingle Announcements ''id'' (JStr pid)) (send_result 404 200)"

definition create_announcement :: "json \<Rightarrow> outcome prog" where
  "create_announcement body =
     Db (CountRows Announcements) (\<lambda>c.
       case error c of
         Some m \<Rightarrow> Return (Responded 500 (error_json m))
       | None \<Rightarrow>
           if count_or_zero c + 1 > 5
           then Return (Responded 400 (error_json ''Total announcements already reached its limit.''))
           else Db (Insert Announcements (JArr [body])) (send_result 400 201))"

definition update_announcement :: "json \<Rightarrow> outcome prog" where
  "update_announcement body =
     (if nullish body then Return (Threw TypeError)
      else if \<not> truthy (get body ''id'')
      then Return (Responded 400 (error_json ''Announcement ID is required in the request body.''))
      else Db (Update Announcements (JObj (omit ''id'' (own_fields body))) ''id'' (get body ''id''))
              (send_result 400 200))"

definition delete_announcement :: "string \<Rightarrow> outcome prog" where
  "delete_announcement pid =
     Db (DeleteEq Announcements ''id'' (JStr pid)) (send_result 400 200)"

definition delete_announcements :: "json \<Rightarrow> outcome prog" where
  "delete_announcements body =
     (if nullish body then Return (Threw TypeError)
      else if \<not> isArray (get body ''ids'') \<or> length_is_zero (get body ''ids'')
      then Return (Responded 400 (error_json ''Request body must include an array of ids.''))
      else Db (DeleteIn Announcements ''id'' (get body ''ids'')) (send_result 400 200))"

subsection \<open>Registered emails\<close>

definition get_all_registered_emails :: "outcome prog" where
  "get_all_registered_emails = Db (SelectAll RegisteredEmails) (send_result 500 200)"

definition get_registered_email :: "string \<Rightarrow> outcome prog" where
  "get_registered_email pid =
     Db (SelectSingle RegisteredEmails ''id'' (JStr pid)) (send_result 404 200)"

definition register :: "json \<Rightarrow> outcome prog" where
  "register body =
     (if nullish body then Return (Threw TypeError)
      else if \<not> truthy (get body ''email'')
      then Return (Responded 400 (error_json ''Email is required''))
      else Db (CountRows RegisteredEmails) (\<lambda>c.
        case error c of
          Some m \<Rightarrow> Return (Responded 500 (error_json m))
        | None \<Rightarrow>
            if count_or_zero c + 1 > 60
            then Return (Responded 400
                   (error_json ''Total registered emails already reached its limit.''))
            else Db (Insert RegisteredEmails (JArr [JObj [(''email'', get body ''email'')]]))
                    (send_result 400 201)))"

definition delete_email :: "string \<Rightarrow> outcome prog" where
  "delete_email pid = Db (DeleteEq RegisteredEmails ''id'' (JStr pid)) (send_result 400 200)"

definition delete_emails :: "json \<Rightarrow> outcome prog" where
  "delete_emails body =
     (if nullish body then Return (Threw TypeError)
      else if \<not> isArray (get body ''ids'')
      then Return (Responded 400 (error_json ''Body must be { ids: [...] }''))
      else Db (DeleteIn RegisteredEmails ''id'' (get body ''ids'')) (send_result 400 200))"

subsection \<open>Content posts\<close>

definition get_all_contents :: "outcome prog" where
  "get_all_contents = Db (SelectAll ContentPosts) (send_result 500 200)"

definition get_content :: "string \<Rightarrow> outcome prog" where
  "get_content pid = Db (SelectSingle ContentPosts ''id'' (JStr pid)) (send_result 404 200)"

definition create_post :: "json \<Rightarrow> outcome prog" where
  "create_post body =
     Db (CountRows ContentPosts) (\<lambda>c.
       case error c of
         Some m \<Rightarrow> Return (Responded 500 (error_json m))
       | None \<Rightarrow>
           if count_or_zero c + 1 > 5
           then Return (Responded 400 (error_json ''Total content posts already reached its limit.''))
           else Db (Insert ContentPosts (JArr [body])) (send_result 400 201))"

definition update_post :: "json \<Rightarrow> outcome prog" where
  "update_post body =
     (if nullish body then Return (Threw TypeError)
      else if \<not> truthy (get body ''id'')
      then Return (Responded 400 (error_json ''Content post ID is required in the request body.''))
      else Db (Update ContentPosts (JObj (omit ''id'' (own_fields body))) ''id'' (get body ''id''))
              (send_result 400 200))"

definition delete_post :: "string \<Rightarrow> outcome prog" where
  "delete_post pid = Db (DeleteEq ContentPosts ''id'' (JStr pid)) (send_result 400 200)"

definition delete_posts :: "json \<Rightarrow> outcome prog" where
  "delete_posts body =
     (if nullish body then Return (Threw TypeError)
      else if \<not> isArray (get body ''ids'') \<or> length_is_zero (get body ''ids'')
      then Return (Responded 400 (error_json ''Request body must include an array of ids.''))
      else Db (DeleteIn ContentPosts ''id'' (get body ''ids'')) (send_result 400 200))"

section \<open>The routers\<close>

datatype http_method = GET | POST | PUT | DELETE

datatype endpoint =
    GetAllUsers | GetUser | CreateUser | CreateUsers | UpdateUser | DeleteUser | DeleteUsers
  | Login
  | GetAllAnnouncements | GetAnnouncement | CreateAnnouncement | UpdateAnnouncement
  | DeleteAnnouncement | DeleteAnnouncements
  | GetAllRegisteredEmails | GetRegisteredEmail | Register | DeleteEmail | DeleteEmails
  | GetAllContents | GetContent | CreatePost | UpdatePost | DeletePost | DeletePosts

text \<open>
  Each router is the list of its registrations \<open>router.METHOD(path, handler)\<close>, in source
  order, with the paths as written (the content router registers its get-by-id route as
  \<open>'get-content/:id'\<close>, without the leading slash).
\<close>

type_synonym route = "http_method \<times> string \<times> endpoint"

definition userRouter :: "route list" where
  "userRouter =
     [(GET, ''/get-all-users'', GetAllUsers),
      (GET, ''/get-user/:id'', GetUser),
      (POST, ''/create-user'', CreateUser),
      (POST, ''/create-users'', CreateUsers),
      (PUT, ''/update-user'', UpdateUser),
      (DELETE, ''/delete-user/:id'', DeleteUser),
      (DELETE, ''/delete-users'', DeleteUsers)]"

definition authRouter :: "route list" where
  "authRouter = [(POST, ''/login'', Login)]"

definition announcementRouter :: "route list" where
  "announcementRouter =
     [(GET, ''/get-all-announcements'', GetAllAnnouncements),
      (GET, ''/get-announcement/:id'', GetAnnouncement),
      (POST, ''/create-announcement'', CreateAnnouncement),
      (PUT, ''/update-announcement'', UpdateAnnouncement),
      (DELETE, ''/delete-announcement/:id'', DeleteAnnouncement),
      (DELETE, ''/delete-announcements/'', DeleteAnnouncements)]"

definition registeredEmailRouter :: "route list" where
  "registeredEmailRouter =
     [(GET, ''/get-all-registered-emails'', GetAllRegisteredEmails),
      (GET, ''/get-registered-email/:id'', GetRegisteredEmail),
      (POST, ''/register'', Register),
      (DELETE, ''/delete-email/:id'', DeleteEmail),
      (DELETE, ''/delete-emails'', DeleteEmails)]"

definition contentRouter :: "route list" where
  "contentRouter =
     [(GET, ''/get-all-contents'', GetAllContents),
      (GET, ''get-content/:id'', GetContent),
      (POST, ''/create-post'', CreatePost),
      (PUT, ''/update-post'', UpdatePost),
      (DELETE, ''/delete-post/:id'', DeletePost),
      (DELETE, ''/delete-posts'', DeletePosts)]"

text \<open>The mounts \<open>app.use(prefix, router)\<close>, in source order.\<close>

definition app :: "(string \<times> route list) list" where
  "app =
     [(''/v1/users'', userRouter),
      (''/v1/content'', contentRouter),
      (''/v1/announcements'', announcementRouter),
      (''/v1/registered-emails'', registeredEmailRouter),
      (''/v1/auth'', authRouter)]"

text \<open>
  The handler behind each endpoint, given \<open>req.params.id\<close> (read by the routes with
  \<open>:id\<close>) and \<open>req.body\<close>.
\<close>

fun handle :: "(json \<Rightarrow> int option) \<Rightarrow> endpoint \<Rightarrow> string \<Rightarrow> json \<Rightarrow> outcome prog" where
  "handle parse GetAllUsers pid body = get_all_users"
| "handle parse GetUser pid body = get_user pid"
| "handle parse CreateUser pid body = create_user body"
| "handle parse CreateUsers pid body = create_users body"
| "handle parse UpdateUser pid body = update_user body"
| "handle parse DeleteUser pid body = delete_user pid"
| "handle parse DeleteUsers pid body = delete_users body"
| "handle parse Login pid body = login body"
| "handle parse GetAllAnnouncements pid body = get_all_announcements parse"
| "handle parse GetAnnouncement pid body = get_announcement pid"
| "handle parse CreateAnnouncement pid body = create_announcement body"
| "handle parse UpdateAnnouncement pid body = update_announcement body"
| "handle parse DeleteAnnouncement pid body = delete_announcement pid"
| "handle parse DeleteAnnouncements pid body = delete_announcements body"
| "handle parse GetAllRegisteredEmails pid body = get_all_registered_emails"
| "handle parse GetRegisteredEmail pid body = get_registered_email pid"
| "handle parse Register pid body = register body"
| "handle parse DeleteEmail pid body = delete_email pid"
| "handle parse DeleteEmails pid body = delete_emails body"
| "handle parse GetAllContents pid body = get_all_contents"
| "handle parse GetContent pid body = get_content pid"
| "handle parse CreatePost pid body = create_post body"
| "handle parse UpdatePost pid body = update_post body"
| "handle parse DeletePost pid body = delete_post pid"
| "handle parse DeletePosts pid body = delete_posts body"

text \<open>The kind of operation each endpoint is, by what its handler does.\<close>

datatype operation =
    GetAll | GetById | Create | BulkCreate | UpdateById | DeleteById | BulkDeleteByIds
  | Authenticate

fun operation_of :: "endpoint \<Rightarrow> operation" where
  "operation_of GetAllUsers = GetAll"
| "operation_of GetUser = GetById"
| "operation_of CreateUser = Create"
| "operation_of CreateUsers = BulkCreate"
| "operation_of UpdateUser = UpdateById"
| "operation_of DeleteUser = DeleteById"
| "operation_of DeleteUsers = BulkDeleteByIds"
| "operation_of Login = Authenticate"
| "operation_of GetAllAnnouncements = GetAll"
| "operation_of GetAnnouncement = GetById"
| "operation_of CreateAnnouncement = Create"
| "operation_of UpdateAnnouncement = UpdateById"
| "operation_of DeleteAnnouncement = DeleteById"
| "operation_of DeleteAnnouncements = BulkDeleteByIds"
| "operation_of GetAllRegisteredEmails = GetAll"
| "operation_of GetRegisteredEmail = GetById"
| "operation_of Register = Create"
| "operation_of DeleteEmail = DeleteById"
| "operation_of DeleteEmails = BulkDeleteByIds"
| "operation_of GetAllContents = GetAll"
| "operation_of GetContent = GetById"
| "operation_of CreatePost = Create"
| "operation_of UpdatePost = UpdateById"
| "operation_of DeletePost = DeleteById"
| "operation_of DeletePosts = BulkDeleteByIds"

definition versioned :: "string \<Rightarrow> bool" where
  "versioned prefix = (take 4 prefix = ''/v1/'')"

subsection \<open>How a request finds its handler\<close>

text \<open>
  Matching a request to a registration is Express's work, not the repository's. It is
  modelled here as Express documents it, for the patterns these routers use: literal
  segments and an \<open>:id\<close> segment.
  \<^item> A path (the path of the request URL, without the query string) is cut into its
    segments at every \<open>/\<close>; one trailing slash is optional, in patterns and in paths
    (routing is not strict by default).
  \<^item> A literal segment matches the same letters without regard to case (routing is not
    case sensitive by default); \<open>:id\<close> matches any segment that is not empty and gives
    \<open>req.params.id\<close>, taken here as it stands in the path.
  \<^item> \<open>app.use(prefix, router)\<close> takes the paths that begin with the segments of the
    prefix and hands the router the rest, which begins with a slash.
  \<^item> The first registration in source order with the method and a matching pattern gets
    the request; a router with no match passes the request on to the next mount.
\<close>

text \<open>The lower-case form of an ASCII letter.\<close>

definition lower :: "char \<Rightarrow> char" where
  "lower c = (if of_char c \<in> {65 .. 90 :: nat} then char_of (of_char c + 32 :: nat) else c)"

fun split_path :: "string \<Rightarrow> string list" where
  "split_path [] = [[]]"
| "split_path (c # cs) =
     (if c = CHR ''/'' then [] # split_path cs
      else (case split_path cs of [] \<Rightarrow> [[c]] | seg # segs \<Rightarrow> (c # seg) # segs))"

definition loose :: "string list \<Rightarrow> string list" where
  "loose segs = (if 1 < length segs \<and> last segs = [] then butlast segs else segs)"

fun match_segments :: "string list \<Rightarrow> string list \<Rightarrow> string option \<Rightarrow> string option option" where
  "match_segments [] [] bound = Some bound"
| "match_segments (p # ps) (x # xs) bound =
     (case p of
        CHR '':'' # name \<Rightarrow> if x = [] then None else match_segments ps xs (Some x)
      | _ \<Rightarrow> if map lower p = map lower x then match_segments ps xs bound else None)"
| "match_segments ps xs bound = None"

definition strip_mount :: "string list \<Rightarrow> string list \<Rightarrow> string list option" where
  "strip_mount prefix segs =
     (if length prefix \<le> length segs
         \<and> map (map lower) (take (length prefix) segs) = map (map lower) prefix
      then Some ([] # drop (length prefix) segs) else None)"

fun find_route :: "route list \<Rightarrow> http_method \<Rightarrow> string list \<Rightarrow> (endpoint \<times> string option) option" where
  "find_route [] m segs = None"
| "find_route ((m', pat, ep) # rs) m segs =
     (if m' = m
      then (case match_segments (loose (split_path pat)) (loose segs) None of
              Some bound \<Rightarrow> Some (ep, bound)
            | None \<Rightarrow> find_route rs m segs)
      else find_route rs m segs)"

fun find_mount ::
  "(string \<times> route list) list \<Rightarrow> http_method \<Rightarrow> string list
     \<Rightarrow> (string \<times> endpoint \<times> string option) option" where
  "find_mount [] m segs = None"
| "find_mount ((prefix, router) # ms) m segs =
     (case strip_mount (loose (split_path prefix)) segs of
        None \<Rightarrow> find_mount ms m segs
      | Some rel \<Rightarrow>
          (case find_route router m rel of
             Some (ep, bound) \<Rightarrow> Some (prefix, ep, bound)
           | None \<Rightarrow> find_mount ms m segs))"

definition dispatch :: "http_method \<Rightarrow> string \<Rightarrow> (string \<times> endpoint \<times> string option) option" where
  "dispatch m path = find_mount app m (split_path path)"

text \<open>The handler a request is served by, if any, with \<open>req.params.id\<close> filled in.\<close>

definition serve ::
  "(json \<Rightarrow> int option) \<Rightarrow> http_method \<Rightarrow> string \<Rightarrow> json \<Rightarrow> outcome prog option" where
  "serve parse m path body =
     (case dispatch m path of
        None \<Rightarrow> None
      | Some (prefix, ep, bound) \<Rightarrow>
          Some (handle parse ep (case bound of None \<Rightarrow> [] | Some v \<Rightarrow> v) body))"

text \<open>
  The router mounted at a prefix exposes an operation when some request is dispatched
  through that mount to an endpoint of that kind.
\<close>

definition exposes :: "string \<Rightarrow> operation \<Rightarrow> bool" where
  "exposes prefix op =
     (\<exists>m path ep bound. dispatch m path = Some (prefix, ep, bound) \<and> operation_of ep = op)"

section \<open>A stand-in world\<close>

text \<open>
  The hosted database and bcrypt are not part of the repository. The theorems below
  hold for every world; to exhibit concrete runs, this section builds one small world:
  tables held in memory, a bcrypt that only tags its input, and a clock that shows a
  fixed time. It stands in for the real services in examples and says nothing about
  them.
\<close>

type_synonym store = "table \<Rightarrow> json list"

definition ok :: "json \<Rightarrow> db_result" where
  "ok d = \<lparr>data = d, error = None, count = None\<rparr>"

definition failed :: "string \<Rightarrow> db_result" where
  "failed m = \<lparr>data = JNull, error = Some m, count = None\<rparr>"

definition merge :: "json \<Rightarrow> json \<Rightarrow> json" where
  "merge changes row =
     JObj (fold (\<lambda>kv fs. set_field (fst kv) (snd kv) fs) (own_fields changes) (own_fields row))"

fun members :: "json \<Rightarrow> json list" where
  "members (JArr xs) = xs"
| "members v = []"

fun mem_db :: "db_call \<Rightarrow> store \<Rightarrow> db_result \<times> store" where
  "mem_db (SelectAll t) s = (ok (JArr (s t)), s)"
| "mem_db (SelectSingle t c v) s =
     (case filter (\<lambda>row. get row c = v) (s t) of
        [row] \<Rightarrow> (ok row, s)
      | _ \<Rightarrow> (failed ''JSON object requested, multiple (or no) rows returned'', s))"
| "mem_db (CountRows t) s = (\<lparr>data = JNull, error = None, count = Some (int (length (s t)))\<rparr>, s)"
| "mem_db (Insert t rows) s =
     (if isArray rows then (ok rows, s(t := s t @ members rows))
      else (failed ''invalid input'', s))"
| "mem_db (Update t d c v) s =
     (ok (JArr (map (merge d) (filter (\<lambda>row. get row c = v) (s t)))),
      s(t := map (\<lambda>row. if get row c = v then merge d row else row) (s t)))"
| "mem_db (DeleteEq t c v) s = (ok JNull, s(t := filter (\<lambda>row. get row c \<noteq> v) (s t)))"
| "mem_db (DeleteIn t c vs) s =
     (ok JNull, s(t := filter (\<lambda>row. get row c \<notin> set (members vs)) (s t)))"

fun tag_hash :: "json \<Rightarrow> nat \<Rightarrow> js_error + string" where
  "tag_hash (JStr p) n = Inr (''$2b$10$'' @ p)"
| "tag_hash v n = Inl (Error ''data must be a string or Buffer'')"

fun tag_compare :: "json \<Rightarrow> json \<Rightarrow> js_error + bool" where
  "tag_compare (JStr p) (JStr h) = Inr (h = ''$2b$10$'' @ p)"
| "tag_compare p h = Inl (Error ''data and hash must be strings'')"

definition stand_in :: "int \<Rightarrow> store env" where
  "stand_in now =
     \<lparr>db = mem_db,
      bcrypt_hash = (\<lambda>p n s. (tag_hash p n, s)),
      bcrypt_compare = (\<lambda>p h s. (tag_compare p h, s)),
      clock = (\<lambda>s. (now, s))\<rparr>"

definition empty_store :: store where
  "empty_store = (\<lambda>t. [])"

section \<open>Reading a run\<close>

definition outcome_of :: "'st env \<Rightarrow> 'a prog \<Rightarrow> 'st \<Rightarrow> 'a" where
  "outcome_of w p s = fst (run w p s)"

definition trace_of :: "'st env \<Rightarrow> 'a prog \<Rightarrow> 'st \<Rightarrow> event list" where
  "trace_of w p s = fst (snd (run w p s))"

definition final :: "'st env \<Rightarrow> 'a prog \<Rightarrow> 'st \<Rightarrow> 'st" where
  "final w p s = snd (snd (run w p s))"

text \<open>The database calls among the events of a run.\<close>

fun db_calls :: "event list \<Rightarrow> db_call list" where
  "db_calls [] = []"
| "db_calls (DbEv c r # tr) = c # db_calls tr"
| "db_calls (e # tr) = db_calls tr"

fun is_insert :: "db_call \<Rightarrow> bool" where
  "is_insert (Insert t rows) = True"
| "is_insert c = False"


text \<open>
  What the promises of \<open>users.map\<close> settle to in a world, with the bcrypt calls made on
  the way: the same traversal as \<open>hash_each\<close>, run against the world.
\<close>

fun settle_all :: "'st env \<Rightarrow> json list \<Rightarrow> 'st \<Rightarrow> settled list \<times> event list \<times> 'st" where
  "settle_all w [] s = ([], [], s)"
| "settle_all w (user # users) s =
     (if nullish user then
        (case settle_all w users s of (ps, tr, s') \<Rightarrow> (RejectedAtOnce TypeError # ps, tr, s'))
      else if \<not> truthy (get user ''password'') then
        (case settle_all w users s of (ps, tr, s') \<Rightarrow>
           (RejectedAtOnce (Error ''Password is required for all users.'') # ps, tr, s'))
      else
        (case bcrypt_hash w (get user ''password'') 10 s of (h, s1) \<Rightarrow>
           (case settle_all w users s1 of (ps, tr, s') \<Rightarrow>
              ((case h of
                  Inl e \<Rightarrow> RejectedLater e
                | Inr hashedPassword \<Rightarrow>
                    Fulfilled (JObj (set_field ''password'' (JStr hashedPassword)
                                       (omit ''password'' (own_fields user))))) # ps,
               HashEv (get user ''password'') 10 h # tr, s'))))"

section \<open>The vocabulary of the specification\<close>

text \<open>An array with at least one element.\<close>

fun nonempty_array :: "json \<Rightarrow> bool" where
  "nonempty_array (JArr (x # xs)) = True"
| "nonempty_array v = False"

text \<open>
  The create operations with the table each one fills and the ceiling the specification
  gives for it: 10 users, 5 content posts, 5 announcements, 60 registered emails.
\<close>

fun single_create :: "endpoint \<Rightarrow> (table \<times> nat) option" where
  "single_create CreateUser = Some (Users, 10)"
| "single_create CreatePost = Some (ContentPosts, 5)"
| "single_create CreateAnnouncement = Some (Announcements, 5)"
| "single_create Register = Some (RegisteredEmails, 60)"
| "single_create ep = None"

fun any_create :: "endpoint \<Rightarrow> (table \<times> nat) option" where
  "any_create CreateUsers = Some (Users, 10)"
| "any_create ep = single_create ep"

text \<open>
  The status of a failed database call, by the kind of operation and the call that
  failed: 500 for a get-all, 404 for a get-by-id, 401 for a login, 400 for an insert,
  update or delete, and 500 for the row count that a create reads first.
\<close>

fun failure_status :: "operation \<Rightarrow> db_call \<Rightarrow> nat" where
  "failure_status GetAll c = 500"
| "failure_status GetById c = 404"
| "failure_status Authenticate c = 401"
| "failure_status Create (CountRows t) = 500"
| "failure_status BulkCreate (CountRows t) = 500"
| "failure_status op c = 400"

definition failure_message :: "operation \<Rightarrow> string \<Rightarrow> string" where
  "failure_message op m = (if op = Authenticate then ''Invalid email or password.'' else m)"

text \<open>The table behind each endpoint.\<close>

fun table_of :: "endpoint \<Rightarrow> table" where
  "table_of GetAllUsers = Users"
| "table_of GetUser = Users"
| "table_of CreateUser = Users"
| "table_of CreateUsers = Users"
| "table_of UpdateUser = Users"
| "table_of DeleteUser = Users"
| "table_of DeleteUsers = Users"
| "table_of Login = Users"
| "table_of GetAllAnnouncements = Announcements"
| "table_of GetAnnouncement = Announcements"
| "table_of CreateAnnouncement = Announcements"
| "table_of UpdateAnnouncement = Announcements"
| "table_of DeleteAnnouncement = Announcements"
| "table_of DeleteAnnouncements = Announcements"
| "table_of GetAllRegisteredEmails = RegisteredEmails"
| "table_of GetRegisteredEmail = RegisteredEmails"
| "table_of Register = RegisteredEmails"
| "table_of DeleteEmail = RegisteredEmails"
| "table_of DeleteEmails = RegisteredEmails"
| "table_of GetAllContents = ContentPosts"
| "table_of GetContent = ContentPosts"
| "table_of CreatePost = ContentPosts"
| "table_of UpdatePost = ContentPosts"
| "table_of DeletePost = ContentPosts"
| "table_of DeletePosts = ContentPosts"

text \<open>
  The requests that pass a handler's own checks on the body (fields that must be
  present, \<open>ids\<close> that must be an array), so that the handler goes on to do its work.
\<close>

fun accepted :: "endpoint \<Rightarrow> json \<Rightarrow> bool" where
  "accepted CreateUser body = (\<not> nullish body \<and> truthy (get body ''password''))"
| "accepted CreateUsers body = isArray body"
| "accepted UpdateUser body = (\<not> nullish body \<and> truthy (get body ''id''))"
| "accepted DeleteUsers body = (\<not> nullish body)"
| "accepted Login body =
     (\<not> nullish body \<and> truthy (get body ''email'') \<and> truthy (get body ''password''))"
| "accepted UpdateAnnouncement body = (\<not> nullish body \<and> truthy (get body ''id''))"
| "accepted DeleteAnnouncements body = (\<not> nullish body \<and> nonempty_array (get body ''ids''))"
| "accepted Register body = (\<not> nullish body \<and> truthy (get body ''email''))"
| "accepted DeleteEmails body = (\<not> nullish body \<and> isArray (get body ''ids''))"
| "accepted UpdatePost body = (\<not> nullish body \<and> truthy (get body ''id''))"
| "accepted DeletePosts body = (\<not> nullish body \<and> nonempty_array (get body ''ids''))"
| "accepted ep body = True"

text \<open>
  What an accepted request sends to the database, and the state in which it does so:
  the rows of an insert or the changes of an update, after bcrypt has hashed the
  passwords in them. There is nothing to send when bcrypt rejects one.
\<close>

fun prepare :: "'st env \<Rightarrow> endpoint \<Rightarrow> json \<Rightarrow> 'st \<Rightarrow> (json \<times> 'st) option" where
  "prepare w CreateUser body s =
     (case bcrypt_hash w (get body ''password'') 10 s of
        (Inl e, s1) \<Rightarrow> None
      | (Inr h, s1) \<Rightarrow>
          Some (JArr [JObj (set_field ''password'' (JStr h)
                              (omit ''password'' (own_fields body)))], s1))"
| "prepare w CreateUsers body s =
     (case settle_all w (members body) s of
        (ps, tr, s1) \<Rightarrow>
          (case promise_all ps of Inl e \<Rightarrow> None | Inr hashed \<Rightarrow> Some (JArr hashed, s1)))"
| "prepare w UpdateUser body s =
     (if truthy (get body ''password'')
      then (case bcrypt_hash w (get body ''password'') 10 s of
              (Inl e, s1) \<Rightarrow> None
            | (Inr h, s1) \<Rightarrow>
                Some (JObj (set_field ''password'' (JStr h) (omit ''id'' (own_fields body))), s1))
      else Some (JObj (omit ''id'' (own_fields body)), s))"
| "prepare w UpdateAnnouncement body s = Some (JObj (omit ''id'' (own_fields body)), s)"
| "prepare w UpdatePost body s = Some (JObj (omit ''id'' (own_fields body)), s)"
| "prepare w CreateAnnouncement body s = Some (JArr [body], s)"
| "prepare w CreatePost body s = Some (JArr [body], s)"
| "prepare w Register body s = Some (JArr [JObj [(''email'', get body ''email'')]], s)"
| "prepare w ep body s = Some (JNull, s)"

text \<open>The first database call of each kind of operation.\<close>

fun first_call :: "operation \<Rightarrow> table \<Rightarrow> string \<Rightarrow> json \<Rightarrow> json \<Rightarrow> db_call" where
  "first_call GetAll t pid body payload = SelectAll t"
| "first_call GetById t pid body payload = SelectSingle t ''id'' (JStr pid)"
| "first_call Create t pid body payload = CountRows t"
| "first_call BulkCreate t pid body payload = CountRows t"
| "first_call UpdateById t pid body payload = Update t payload ''id'' (get body ''id'')"
| "first_call DeleteById t pid body payload = DeleteEq t ''id'' (JStr pid)"
| "first_call BulkDeleteByIds t pid body payload = DeleteIn t ''id'' (get body ''ids'')"
| "first_call Authenticate t pid body payload = SelectSingle t ''email'' (get body ''email'')"

text \<open>The number of rows a create asks to add.\<close>

fun added :: "endpoint \<Rightarrow> json \<Rightarrow> int" where
  "added CreateUsers body = int (length (members body))"
| "added ep body = 1"

text \<open>One day in milliseconds.\<close>

definition day_ms :: int where
  "day_ms = 1000 * 60 * 60 * 24"

section \<open>Example data\<close>

definition alice :: "(string \<times> json) list" where
  "alice =
     [(''id'', JNum 1),
      (''email'', JStr ''alice@example.org''),
      (''password'', JStr ''$2b$10$wonderland''),
      (''first_name'', JStr ''Alice''),
      (''middle_name'', JNull),
      (''last_name'', JStr ''Liddell''),
      (''suffix'', JNull)]"

definition one_user :: store where
  "one_user = empty_store(Users := [JObj alice])"

definition alice_login :: json where
  "alice_login = JObj [(''email'', JStr ''alice@example.org''), (''password'', JStr ''wonderland'')]"

definition new_users :: "json list" where
  "new_users =
     [JObj [(''email'', JStr ''bob@example.org''), (''password'', JStr ''builder'')],
      JObj [(''email'', JStr ''carol@example.org''), (''password'', JStr ''singer'')]]"

definition two_new_users :: json where
  "two_new_users = JArr new_users"

definition row_count :: "store \<Rightarrow> table \<Rightarrow> nat" where
  "row_count s t = length (s t)"

definition nine_users :: store where
  "nine_users = empty_store(Users := replicate 9 (JObj alice))"

definition wrong_login :: json where
  "wrong_login =
     JObj [(''email'', JStr ''alice@example.org''), (''password'', JStr ''looking-glass'')]"

definition empty_password_update :: json where
  "empty_password_update = JObj [(''id'', JNum 1), (''password'', JStr '''')]"

definition one_announcement :: store where
  "one_announcement =
     empty_store(Announcements :=
       [JObj [(''id'', JNum 1), (''title'', JStr ''Hello''),
              (''created_at'', JStr ''1970-01-01T00:00:00.000Z'')]])"

text \<open>A \<open>new Date(x)\<close> that reads one timestamp, the epoch, and nothing else.\<close>

definition epoch_only :: "json \<Rightarrow> int option" where
  "epoch_only j = (if j = JStr ''1970-01-01T00:00:00.000Z'' then Some 0 else None)"

text \<open>The stand-in world at time 0 with some database calls failing.\<close>

fun is_count :: "db_call \<Rightarrow> bool" where
  "is_count (CountRows t) = True"
| "is_count c = False"

definition failing :: "(db_call \<Rightarrow> bool) \<Rightarrow> string \<Rightarrow> store env" where
  "failing bad m =
     \<lparr>db = (\<lambda>c s. if bad c then (failed m, s) else mem_db c s),
      bcrypt_hash = (\<lambda>p n s. (tag_hash p n, s)),
      bcrypt_compare = (\<lambda>p h s. (tag_compare p h, s)),
      clock = (\<lambda>s. (0, s))\<rparr>"

definition hello :: json where
  "hello = JObj [(''title'', JStr ''Hello'')]"

text \<open>A \<open>new Date(x)\<close> for runs that parse no date.\<close>

definition no_dates :: "json \<Rightarrow> int option" where
  "no_dates j = None"

section \<open>Facts about runs\<close>

lemmas run_defs = outcome_of_def trace_of_def final_def

lemma nonempty_array_iff: "nonempty_array v \<longleftrightarrow> isArray v \<and> \<not> length_is_zero v"
  by (cases v rule: nonempty_array.cases) auto

lemma db_calls_append: "db_calls (xs @ ys) = db_calls xs @ db_calls ys"
  by (induction xs rule: db_calls.induct) auto

lemma run_hash_each:
  "run w (hash_each users k) s =
     (case settle_all w users s of (ps, tr1, s1) \<Rightarrow>
        (case run w (k ps) s1 of (x, tr2, s2) \<Rightarrow> (x, tr1 @ tr2, s2)))"
  by (induction users arbitrary: k s) (auto split: prod.splits)

lemma settle_all_no_db: "settle_all w users s = (ps, tr, s') \<Longrightarrow> db_calls tr = []"
  by (induction users arbitrary: ps tr s s') (auto split: prod.splits if_splits)

lemma settle_all_no_db_event: "settle_all w users s = (ps, tr, s') \<Longrightarrow> DbEv c r \<notin> set tr"
  by (induction users arbitrary: ps tr s s') (auto split: prod.splits if_splits)

lemma settle_all_length: "settle_all w users s = (ps, tr, s') \<Longrightarrow> length ps = length users"
  by (induction users arbitrary: ps tr s s') (auto split: prod.splits if_splits)

lemma fulfilled_length: "length (fulfilled ps) \<le> length ps"
  by (induction ps rule: fulfilled.induct) auto

lemma settle_all_keeps:
  assumes "\<And>p n s. rows (snd (bcrypt_hash w p n s)) = rows s"
  shows "settle_all w users s = (ps, tr, s') \<Longrightarrow> rows s' = rows s"
proof (induction users arbitrary: ps tr s s')
  case Nil
  then show ?case by simp
next
  case (Cons user users)
  show ?case
  proof (cases "nullish user \<or> \<not> truthy (get user ''password'')")
    case True
    with Cons show ?thesis by (auto split: prod.splits if_splits)
  next
    case False
    obtain h s1 where h: "bcrypt_hash w (get user ''password'') 10 s = (h, s1)"
      by (cases "bcrypt_hash w (get user ''password'') 10 s") auto
    obtain ps' tr' where r: "settle_all w users s1 = (ps', tr', s')"
      using Cons.prems False h by (auto split: prod.splits)
    have "rows s1 = rows s" using assms [of "get user ''password''" 10 s] h by simp
    with Cons.IH [OF r] show ?thesis by simp
  qed
qed

lemma settle_all_trace_no_db: "DbEv c r \<notin> set (fst (snd (settle_all w users s)))"
  using settle_all_no_db_event [of w users s] by (cases "settle_all w users s") auto

lemma settle_all_trace_db_calls: "db_calls (fst (snd (settle_all w users s))) = []"
  using settle_all_no_db [of w users s] by (cases "settle_all w users s") auto

lemma settle_all_final_keeps:
  assumes "\<And>p n s. rows (snd (bcrypt_hash w p n s)) = rows s"
  shows "rows (snd (snd (settle_all w users s))) = rows s"
  using settle_all_keeps [of rows w users s, OF assms] by (cases "settle_all w users s") auto

text \<open>The outcome, the trace and the final state of a run, call by call.\<close>

lemma outcome_Return: "outcome_of w (Return x) s = x"
  by (simp add: outcome_of_def)

lemma outcome_Db: "outcome_of w (Db c k) s = outcome_of w (k (fst (db w c s))) (snd (db w c s))"
  by (simp add: outcome_of_def split: prod.splits)

lemma outcome_BcryptHash:
  "outcome_of w (BcryptHash p n k) s =
     outcome_of w (k (fst (bcrypt_hash w p n s))) (snd (bcrypt_hash w p n s))"
  by (simp add: outcome_of_def split: prod.splits)

lemma outcome_BcryptCompare:
  "outcome_of w (BcryptCompare p h k) s =
     outcome_of w (k (fst (bcrypt_compare w p h s))) (snd (bcrypt_compare w p h s))"
  by (simp add: outcome_of_def split: prod.splits)

lemma outcome_NewDate:
  "outcome_of w (NewDate k) s = outcome_of w (k (fst (clock w s))) (snd (clock w s))"
  by (simp add: outcome_of_def split: prod.splits)

lemma outcome_hash_each:
  "outcome_of w (hash_each users k) s =
     outcome_of w (k (fst (settle_all w users s))) (snd (snd (settle_all w users s)))"
  by (simp add: outcome_of_def run_hash_each split: prod.splits)

lemmas outcome_simps = outcome_Return outcome_Db outcome_BcryptHash outcome_BcryptCompare
  outcome_NewDate outcome_hash_each

lemma trace_Return: "trace_of w (Return x) s = []"
  by (simp add: trace_of_def)

lemma trace_Db:
  "trace_of w (Db c k) s =
     DbEv c (fst (db w c s)) # trace_of w (k (fst (db w c s))) (snd (db w c s))"
  by (simp add: trace_of_def split: prod.splits)

lemma trace_BcryptHash:
  "trace_of w (BcryptHash p n k) s =
     HashEv p n (fst (bcrypt_hash w p n s))
       # trace_of w (k (fst (bcrypt_hash w p n s))) (snd (bcrypt_hash w p n s))"
  by (simp add: trace_of_def split: prod.splits)

lemma trace_BcryptCompare:
  "trace_of w (BcryptCompare p h k) s =
     CompareEv p h (fst (bcrypt_compare w p h s))
       # trace_of w (k (fst (bcrypt_compare w p h s))) (snd (bcrypt_compare w p h s))"
  by (simp add: trace_of_def split: prod.splits)

lemma trace_NewDate:
  "trace_of w (NewDate k) s =
     DateEv (fst (clock w s)) # trace_of w (k (fst (clock w s))) (snd (clock w s))"
  by (simp add: trace_of_def split: prod.splits)

lemma trace_hash_each:
  "trace_of w (hash_each users k) s =
     fst (snd (settle_all w users s))
       @ trace_of w (k (fst (settle_all w users s))) (snd (snd (settle_all w users s)))"
  by (simp add: trace_of_def run_hash_each split: prod.splits)

lemmas trace_simps = trace_Return trace_Db trace_BcryptHash trace_BcryptCompare trace_NewDate
  trace_hash_each

lemma final_Return: "final w (Return x) s = s"
  by (simp add: final_def)

lemma final_Db: "final w (Db c k) s = final w (k (fst (db w c s))) (snd (db w c s))"
  by (simp add: final_def split: prod.splits)

lemma final_BcryptHash:
  "final w (BcryptHash p n k) s =
     final w (k (fst (bcrypt_hash w p n s))) (snd (bcrypt_hash w p n s))"
  by (simp add: final_def split: prod.splits)

lemma final_hash_each:
  "final w (hash_each users k) s =
     final w (k (fst (settle_all w users s))) (snd (snd (settle_all w users s)))"
  by (simp add: final_def run_hash_each split: prod.splits)

lemmas final_simps = final_Return final_Db final_BcryptHash final_hash_each

lemma lookup_omit: "k \<noteq> k' \<Longrightarrow> lookup (omit k' fs) k = lookup fs k"
  by (induction fs) (auto simp: lookup_def omit_def)

lemma lookup_set_field: "lookup (set_field k v fs) k = v"
  by (induction fs) (auto simp: lookup_def set_field_def split: if_splits)

lemma settle_all_rejects:
  "settle_all w users s = (ps, tr, s') \<Longrightarrow> user \<in> set users
   \<Longrightarrow> \<not> truthy (get user ''password'') \<Longrightarrow> rejected_at_once ps \<noteq> None"
  by (induction users arbitrary: ps tr s s') (auto split: prod.splits if_splits sum.splits)

section \<open>Login\<close>



section \<open>Bulk create with a missing password\<close>

text \<open>
  Claim C8. When the body of create-users is an array with at least one element that has
  no password field, the handler throws: it sends no response at all (so none of 201,
  400, 500), and it has made no database call, neither the row count nor the insert.
  Only \<open>bcrypt.hash\<close> calls for the other elements may have been started.
\<close>

theorem create_users_missing_password_throws:
  assumes "user \<in> set users" and "get user ''password'' = JUndefined"
  shows "(\<exists>e. outcome_of w (create_users (JArr users)) s = Threw e)
       \<and> db_calls (trace_of w (create_users (JArr users)) s) = []"
proof -
  obtain ps tr1 s1 where st: "settle_all w users s = (ps, tr1, s1)"
    by (cases "settle_all w users s") auto
  from settle_all_rejects [OF st assms(1)] assms(2)
  obtain e where "rejected_at_once ps = Some e"
    by auto
  then have "promise_all ps = Inl e"
    by (simp add: promise_all_def)
  with st have "outcome_of w (create_users (JArr users)) s = Threw e"
    and "trace_of w (create_users (JArr users)) s = tr1"
    by (simp_all add: run_defs create_users_def run_hash_each)
  with settle_all_no_db [OF st] show ?thesis
    by simp
qed

theorem create_users_missing_password_throws_witness:
  "JObj [(''email'', JStr ''dave@example.org'')]
     \<in> set [JObj [(''email'', JStr ''bob@example.org''), (''password'', JStr ''builder'')],
            JObj [(''email'', JStr ''dave@example.org'')]]
   \<and> get (JObj [(''email'', JStr ''dave@example.org'')]) ''password'' = JUndefined
   \<and> outcome_of (stand_in 0)
        (create_users
           (JArr [JObj [(''email'', JStr ''bob@example.org''), (''password'', JStr ''builder'')],
                  JObj [(''email'', JStr ''dave@example.org'')]]))
        empty_store
       = Threw (Error ''Password is required for all users.'')
   \<and> db_calls (trace_of (stand_in 0)
        (create_users
           (JArr [JObj [(''email'', JStr ''bob@example.org''), (''password'', JStr ''builder'')],
                  JObj [(''email'', JStr ''dave@example.org'')]]))
        empty_store) = []"
  using create_users_missing_password_throws
    [of "JObj [(''email'', JStr ''dave@example.org'')]"
        "[JObj [(''email'', JStr ''bob@example.org''), (''password'', JStr ''builder'')],
          JObj [(''email'', JStr ''dave@example.org'')]]"
        "stand_in 0" empty_store]
  by (simp add: run_defs create_users_def promise_all_def lookup_def stand_in_def)

section \<open>Validation before any database call\<close>

text \<open>
  Claim C9. For a request with a parsed body (\<open>req.body\<close> is not \<open>undefined\<close> or
  \<open>null\<close>): update-user without an id (an id that is absent, or falsy) answers 400, and
  delete-announcements whose \<open>ids\<close> is not a non-empty array answers 400; in both cases
  the handler has made no call at all, so the state of the world is what it was.
\<close>

theorem validation_failure_makes_no_call:
  assumes "\<not> nullish body"
  shows "(\<not> truthy (get body ''id'') \<longrightarrow>
            run w (update_user body) s =
              (Responded 400 (error_json ''User ID is required in the request body.''), [], s))
       \<and> (\<not> nonempty_array (get body ''ids'') \<longrightarrow>
            run w (delete_announcements body) s =
              (Responded 400 (error_json ''Request body must include an array of ids.''), [], s))"
  using assms by (simp add: update_user_def delete_announcements_def nonempty_array_iff)

theorem validation_failure_makes_no_call_witness:
  "\<not> nullish (JObj [(''password'', JStr ''secret''), (''ids'', JArr [])])
   \<and> \<not> truthy (get (JObj [(''password'', JStr ''secret''), (''ids'', JArr [])]) ''id'')
   \<and> \<not> nonempty_array (get (JObj [(''password'', JStr ''secret''), (''ids'', JArr [])]) ''ids'')
   \<and> run (stand_in 0) (update_user (JObj [(''password'', JStr ''secret''), (''ids'', JArr [])]))
        one_user
       = (Responded 400 (error_json ''User ID is required in the request body.''), [], one_user)
   \<and> run (stand_in 0)
        (delete_announcements (JObj [(''password'', JStr ''secret''), (''ids'', JArr [])])) one_user
       = (Responded 400 (error_json ''Request body must include an array of ids.''), [], one_user)"
  using validation_failure_makes_no_call
    [of "JObj [(''password'', JStr ''secret''), (''ids'', JArr [])]" "stand_in 0" one_user]
  by (simp add: lookup_def)

section \<open>Bulk delete of users\<close>

text \<open>
  Claim C10. For a request with a parsed body, delete-users checks nothing: whatever
  \<open>body.ids\<close> is, also absent or not an array, the handler's one database call is the
  delete with that value as the list of ids. The bulk deletes of announcements, content
  posts and registered emails answer 400 to an \<open>ids\<close> that is not an array, without a
  database call.
\<close>

theorem delete_users_forwards_ids:
  assumes "\<not> nullish body"
  shows "db_calls (trace_of w (delete_users body) s) = [DeleteIn Users ''id'' (get body ''ids'')]
       \<and> (\<not> isArray (get body ''ids'') \<longrightarrow>
            run w (delete_announcements body) s =
              (Responded 400 (error_json ''Request body must include an array of ids.''), [], s)
          \<and> run w (delete_posts body) s =
              (Responded 400 (error_json ''Request body must include an array of ids.''), [], s)
          \<and> run w (delete_emails body) s =
              (Responded 400 (error_json ''Body must be { ids: [...] }''), [], s))"
  using assms
  by (auto simp: run_defs delete_users_def delete_announcements_def delete_posts_def
      delete_emails_def send_result_def split: prod.splits option.splits)

theorem delete_users_forwards_ids_witness:
  "\<not> nullish (JObj [(''ids'', JStr ''all'')])
   \<and> \<not> isArray (get (JObj [(''ids'', JStr ''all'')]) ''ids'')
   \<and> db_calls (trace_of (stand_in 0) (delete_users (JObj [(''ids'', JStr ''all'')])) one_user)
       = [DeleteIn Users ''id'' (JStr ''all'')]
   \<and> run (stand_in 0) (delete_announcements (JObj [(''ids'', JStr ''all'')])) one_user
       = (Responded 400 (error_json ''Request body must include an array of ids.''), [], one_user)
   \<and> run (stand_in 0) (delete_posts (JObj [(''ids'', JStr ''all'')])) one_user
       = (Responded 400 (error_json ''Request body must include an array of ids.''), [], one_user)
   \<and> run (stand_in 0) (delete_emails (JObj [(''ids'', JStr ''all'')])) one_user
       = (Responded 400 (error_json ''Body must be { ids: [...] }''), [], one_user)"
  using delete_users_forwards_ids [of "JObj [(''ids'', JStr ''all'')]" "stand_in 0" one_user]
  by (simp add: lookup_def)

section \<open>The row-count ceiling\<close>








lemma count_tail_keeps:
  fixes rows :: "'st \<Rightarrow> table \<Rightarrow> nat"
  assumes acc: "\<And>t s. error (fst (db w (CountRows t) s)) = None
                  \<longrightarrow> count (fst (db w (CountRows t) s)) = Some (int (rows s t))"
    and rd: "\<And>t s. rows (snd (db w (CountRows t) s)) = rows s"
    and ins: "\<And>t xs s. rows (snd (db w (Insert t (JArr xs)) s)) t \<le> rows s t + length xs"
    and le: "rows s t \<le> limit" and len: "int (length xs) \<le> k" and L: "L = int limit"
  shows "rows (final w
           (Db (CountRows t) (\<lambda>c.
              case error c of
                Some m \<Rightarrow> Return (Responded 500 (error_json m))
              | None \<Rightarrow>
                  if count_or_zero c + k > L
                  then Return (Responded 400 (error_json msg))
                  else Db (Insert t (JArr xs)) (send_result 400 201))) s) t \<le> limit"
proof -
  define c where "c = fst (db w (CountRows t) s)"
  define s1 where "s1 = snd (db w (CountRows t) s)"
  have s1: "rows s1 = rows s" using rd [of t s] by (simp add: s1_def)
  show ?thesis
  proof (cases "error c")
    case (Some m)
    with s1 le show ?thesis by (simp add: final_simps c_def s1_def)
  next
    case None
    with acc [of t s] have cnt: "count_or_zero c = int (rows s t)"
      by (simp add: count_or_zero_def c_def)
    show ?thesis
    proof (cases "count_or_zero c + k > L")
      case True
      with s1 le None show ?thesis by (simp add: final_simps c_def s1_def)
    next
      case False
      have "rows (snd (db w (Insert t (JArr xs)) s1)) t \<le> rows s1 t + length xs"
        using ins [of t xs s1] by simp
      with False cnt s1 len L have "rows (snd (db w (Insert t (JArr xs)) s1)) t \<le> limit"
        by simp
      with None False show ?thesis
        by (simp add: final_simps send_result_def c_def s1_def split: option.splits)
    qed
  qed
qed

lemma create_keeps_rows:
  fixes rows :: "'st \<Rightarrow> table \<Rightarrow> nat"
  assumes acc: "\<And>t s. error (fst (db w (CountRows t) s)) = None
                  \<longrightarrow> count (fst (db w (CountRows t) s)) = Some (int (rows s t))"
    and rd: "\<And>t s. rows (snd (db w (CountRows t) s)) = rows s"
    and ins: "\<And>t xs s. rows (snd (db w (Insert t (JArr xs)) s)) t \<le> rows s t + length xs"
    and hk: "\<And>p n s. rows (snd (bcrypt_hash w p n s)) = rows s"
    and ep: "any_create ep = Some (t, limit)"
    and le: "rows s t \<le> limit"
  shows "rows (final w (handle parse ep pid body) s) t \<le> limit"
proof (cases ep)
  case CreateUser
  with ep have t: "t = Users" "limit = 10" by simp_all
  define s1 where "s1 = snd (bcrypt_hash w (get body ''password'') 10 s)"
  have s1: "rows s1 Users \<le> 10" using le t hk [of "get body ''password''" 10 s]
    by (simp add: s1_def)
  note tail = count_tail_keeps [OF acc rd ins s1, of _ 1 10 "''Total users cannot exceed 10.''"]
  show ?thesis using le t CreateUser tail s1
    by (simp add: create_user_def final_simps s1_def split: sum.splits)
next
  case CreateUsers
  with ep have t: "t = Users" "limit = 10" by simp_all
  show ?thesis
  proof (cases body)
    case (JArr users)
    obtain ps tr1 s1 where st: "settle_all w users s = (ps, tr1, s1)"
      by (cases "settle_all w users s") auto
    have s1: "rows s1 = rows s" using settle_all_keeps [of rows w, OF hk st] .
    show ?thesis
    proof (cases "promise_all ps")
      case (Inl e)
      with st s1 le CreateUsers JArr show ?thesis
        by (simp add: create_users_def final_simps)
    next
      case (Inr hashed)
      then have "hashed = fulfilled ps"
        by (auto simp: promise_all_def split: option.splits)
      with fulfilled_length [of ps] settle_all_length [OF st]
      have len: "int (length hashed) \<le> int (length users)" by simp
      have "rows s1 Users \<le> 10" using le s1 t by simp
      from count_tail_keeps [OF acc rd ins this len, of 10 "''Total users cannot exceed 10.''"]
      show ?thesis using st Inr CreateUsers JArr t
        by (simp add: create_users_def final_simps)
    qed
  qed (use le CreateUsers in \<open>simp_all add: create_users_def final_simps\<close>)
next
  case CreatePost
  with ep have t: "t = ContentPosts" "limit = 5" by simp_all
  from count_tail_keeps [OF acc rd ins, of s ContentPosts 5 "[body]" 1 5
      "''Total content posts already reached its limit.''"] le t
  show ?thesis using CreatePost by (simp add: create_post_def)
next
  case CreateAnnouncement
  with ep have t: "t = Announcements" "limit = 5" by simp_all
  from count_tail_keeps [OF acc rd ins, of s Announcements 5 "[body]" 1 5
      "''Total announcements already reached its limit.''"] le t
  show ?thesis using CreateAnnouncement by (simp add: create_announcement_def)
next
  case Register
  with ep have t: "t = RegisteredEmails" "limit = 60" by simp_all
  from count_tail_keeps [OF acc rd ins, of s RegisteredEmails 60
      "[JObj [(''email'', get body ''email'')]]" 1 60
      "''Total registered emails already reached its limit.''"] le t
  show ?thesis using Register by (simp add: register_def final_simps)
qed (use ep in simp_all)

lemma create_users_over_limit:
  fixes rows :: "'st \<Rightarrow> table \<Rightarrow> nat"
  assumes acc: "\<And>t s. error (fst (db w (CountRows t) s)) = None
                  \<longrightarrow> count (fst (db w (CountRows t) s)) = Some (int (rows s t))"
    and hk: "\<And>p n s. rows (snd (bcrypt_hash w p n s)) = rows s"
    and ev: "DbEv (CountRows Users) c \<in> set (trace_of w (create_users (JArr users)) s)"
    and ok: "error c = None"
    and over: "rows s Users + length users > 10"
  shows "outcome_of w (create_users (JArr users)) s
           = Responded 400 (error_json ''Total users cannot exceed 10.'')
       \<and> \<not> list_ex is_insert (db_calls (trace_of w (create_users (JArr users)) s))"
proof -
  define s1 where "s1 = snd (snd (settle_all w users s))"
  define c' where "c' = fst (db w (CountRows Users) s1)"
  have s1: "rows s1 = rows s"
    using settle_all_final_keeps [of rows w, OF hk] by (simp add: s1_def)
  from ev have c: "c = c'"
    by (auto simp: create_users_def trace_simps settle_all_trace_no_db send_result_def
        s1_def c'_def split: sum.splits option.splits if_splits)
  with ok acc [of Users s1] s1 have "count_or_zero c' = int (rows s Users)"
    by (simp add: count_or_zero_def c'_def)
  with over ok c ev show ?thesis
    by (auto simp: create_users_def trace_simps outcome_simps db_calls_append
        settle_all_trace_db_calls settle_all_trace_no_db s1_def c'_def split: sum.splits)
qed

text \<open>
  Claim C4. Take a world whose row-count query, when it succeeds, returns the number of
  rows of the table and changes nothing, whose insert of a list of rows adds at most
  that many rows to the table, and whose bcrypt leaves the tables alone; a handler runs
  from start to end with no other request in between. Then every create operation
  (create-user, create-users, create-post, create-announcement, register) that starts
  with its table at or under the ceiling ends with it at or under the ceiling. And
  create-users with \<open>n\<close> users, once it has read the row count, answers 400 and inserts
  nothing whenever the rows in the table plus \<open>n\<close> exceed 10.
\<close>

theorem create_keeps_ceiling:
  fixes rows :: "'st \<Rightarrow> table \<Rightarrow> nat"
  assumes acc: "\<And>t s. error (fst (db w (CountRows t) s)) = None
                  \<longrightarrow> count (fst (db w (CountRows t) s)) = Some (int (rows s t))"
    and rd: "\<And>t s. rows (snd (db w (CountRows t) s)) = rows s"
    and ins: "\<And>t xs s. rows (snd (db w (Insert t (JArr xs)) s)) t \<le> rows s t + length xs"
    and hk: "\<And>p n s. rows (snd (bcrypt_hash w p n s)) = rows s"
    and ep: "any_create ep = Some (t, limit)"
    and le: "rows s t \<le> limit"
  shows "rows (final w (handle parse ep pid body) s) t \<le> limit
       \<and> (DbEv (CountRows Users) c \<in> set (trace_of w (create_users (JArr users)) s)
            \<and> error c = None \<and> rows s Users + length users > 10
          \<longrightarrow> outcome_of w (create_users (JArr users)) s
                = Responded 400 (error_json ''Total users cannot exceed 10.'')
              \<and> \<not> list_ex is_insert (db_calls (trace_of w (create_users (JArr users)) s)))"
  using create_keeps_rows [of w rows ep t limit s parse pid body, OF acc rd ins hk ep le]
    create_users_over_limit [of w rows c users s, OF acc hk]
  by blast

theorem create_keeps_ceiling_witness:
  "any_create CreateUsers = Some (Users, 10)
   \<and> row_count nine_users Users \<le> 10
   \<and> row_count (final (stand_in 0) (handle no_dates CreateUsers [] two_new_users) nine_users)
       Users \<le> 10
   \<and> row_count nine_users Users + length new_users > 10
   \<and> DbEv (CountRows Users) \<lparr>data = JNull, error = None, count = Some 9\<rparr>
       \<in> set (trace_of (stand_in 0) (create_users two_new_users) nine_users)
   \<and> outcome_of (stand_in 0) (create_users two_new_users) nine_users
       = Responded 400 (error_json ''Total users cannot exceed 10.'')"
proof -
  have acc: "\<And>t s. error (fst (db (stand_in 0) (CountRows t) s)) = None
                  \<longrightarrow> count (fst (db (stand_in 0) (CountRows t) s)) = Some (int (row_count s t))"
    by (simp add: stand_in_def row_count_def)
  have rd: "\<And>t s. row_count (snd (db (stand_in 0) (CountRows t) s)) = row_count s"
    by (simp add: stand_in_def)
  have ins: "\<And>t xs s. row_count (snd (db (stand_in 0) (Insert t (JArr xs)) s)) t
                  \<le> row_count s t + length xs"
    by (simp add: stand_in_def row_count_def)
  have hk: "\<And>p n s. row_count (snd (bcrypt_hash (stand_in 0) p n s)) = row_count s"
    by (simp add: stand_in_def)
  have ep: "any_create CreateUsers = Some (Users, 10)"
    by simp
  have le: "row_count nine_users Users \<le> 10"
    by (simp add: row_count_def nine_users_def empty_store_def)
  have ev: "DbEv (CountRows Users) \<lparr>data = JNull, error = None, count = Some 9\<rparr>
       \<in> set (trace_of (stand_in 0) (create_users two_new_users) nine_users)"
    by (simp add: run_defs create_users_def promise_all_def lookup_def stand_in_def
        nine_users_def empty_store_def count_or_zero_def two_new_users_def new_users_def)
  have over: "row_count nine_users Users + length new_users > 10"
    by (simp add: row_count_def nine_users_def empty_store_def new_users_def)
  from create_keeps_ceiling
    [of "stand_in 0" row_count CreateUsers Users 10 nine_users no_dates "[]" two_new_users
        "\<lparr>data = JNull, error = None, count = Some 9\<rparr>" new_users,
      OF acc rd ins hk ep le]
    ep le ev over
  show ?thesis by (simp add: two_new_users_def)
qed

section \<open>Failures of the backend\<close>

lemma db_failure_status:
  assumes "DbEv c r \<in> set (trace_of w (handle parse ep pid body) s)" and "error r = Some m"
  shows "outcome_of w (handle parse ep pid body) s =
           Responded (failure_status (operation_of ep) c)
             (error_json (failure_message (operation_of ep) m))"
proof (cases ep)
  case CreateUser
  with assms show ?thesis
    by (auto simp: create_user_def failure_message_def trace_simps outcome_simps
        send_result_def split: if_splits sum.splits option.splits)
next
  case CreateUsers
  with assms show ?thesis
    by (auto simp: create_users_def failure_message_def trace_simps outcome_simps
        send_result_def settle_all_trace_no_db
        split: json.splits sum.splits if_splits option.splits)
next
  case UpdateUser
  with assms show ?thesis
    by (auto simp: update_user_def failure_message_def trace_simps outcome_simps
        send_result_def split: if_splits sum.splits option.splits)
next
  case Login
  with assms show ?thesis
    by (auto simp: login_def failure_message_def trace_simps outcome_simps
        split: if_splits sum.splits)
next
  case GetAllAnnouncements
  with assms show ?thesis
    by (auto simp: get_all_announcements_def failure_message_def trace_simps outcome_simps
        split: if_splits option.splits json.splits)
next
  case CreateAnnouncement
  with assms show ?thesis
    by (auto simp: create_announcement_def failure_message_def trace_simps outcome_simps
        send_result_def split: if_splits option.splits)
next
  case CreatePost
  with assms show ?thesis
    by (auto simp: create_post_def failure_message_def trace_simps outcome_simps
        send_result_def split: if_splits option.splits)
next
  case Register
  with assms show ?thesis
    by (auto simp: register_def failure_message_def trace_simps outcome_simps
        send_result_def split: if_splits option.splits)
qed (use assms in
     \<open>auto simp: failure_message_def get_all_users_def get_user_def delete_user_def
        delete_users_def get_announcement_def update_announcement_def delete_announcement_def
        delete_announcements_def get_all_registered_emails_def get_registered_email_def
        delete_email_def delete_emails_def get_all_contents_def get_content_def
        update_post_def delete_post_def delete_posts_def trace_simps outcome_simps
        send_result_def split: if_splits option.splits\<close>)

lemma password_of_rest:
  "\<not> nullish body \<Longrightarrow> truthy (get body ''id'')
   \<Longrightarrow> lookup (omit ''id'' (own_fields body)) ''password'' = get body ''password''"
  by (cases body) (auto simp: lookup_omit)

lemma first_call_fails:
  assumes "accepted ep body" and "prepare w ep body s = Some (payload, s1)"
    and "error (fst (db w (first_call (operation_of ep) (table_of ep) pid body payload) s1))
           = Some m"
  shows "outcome_of w (handle parse ep pid body) s =
           Responded (failure_status (operation_of ep)
                        (first_call (operation_of ep) (table_of ep) pid body payload))
             (error_json (failure_message (operation_of ep) m))"
proof (cases ep)
  case CreateUser
  with assms show ?thesis
    by (auto simp: create_user_def outcome_simps failure_message_def
        split: prod.splits sum.splits)
next
  case CreateUsers
  with assms show ?thesis
    by (cases body)
       (auto simp: create_users_def outcome_simps failure_message_def
        split: prod.splits sum.splits)
next
  case UpdateUser
  with assms password_of_rest [of body] show ?thesis
    by (auto simp: update_user_def outcome_simps send_result_def failure_message_def
        split: prod.splits sum.splits if_splits)
next
  case GetAllAnnouncements
  with assms show ?thesis
    by (simp add: get_all_announcements_def outcome_simps failure_message_def)
qed (use assms in
     \<open>auto simp: failure_message_def get_all_users_def get_user_def
        delete_user_def delete_users_def login_def get_announcement_def
        create_announcement_def update_announcement_def delete_announcement_def
        delete_announcements_def get_all_registered_emails_def get_registered_email_def
        register_def delete_email_def delete_emails_def get_all_contents_def get_content_def
        create_post_def update_post_def delete_post_def delete_posts_def outcome_simps
        send_result_def nonempty_array_iff\<close>)

lemma insert_fails:
  assumes "any_create ep = Some (t, limit)"
    and "accepted ep body" and "prepare w ep body s = Some (rows, s1)"
    and "db w (CountRows t) s1 = (c, s2)" and "error c = None"
    and "count_or_zero c + added ep body \<le> int limit"
    and "error (fst (db w (Insert t rows) s2)) = Some m"
  shows "outcome_of w (handle parse ep pid body) s = Responded 400 (error_json m)"
proof (cases ep)
  case CreateUser
  with assms show ?thesis
    by (auto simp: create_user_def outcome_simps send_result_def
        split: prod.splits sum.splits)
next
  case CreateUsers
  with assms show ?thesis
    by (cases body)
       (auto simp: create_users_def outcome_simps send_result_def
        split: prod.splits sum.splits)
next
  case CreateAnnouncement
  with assms show ?thesis
    by (auto simp: create_announcement_def outcome_simps send_result_def)
next
  case CreatePost
  with assms show ?thesis
    by (auto simp: create_post_def outcome_simps send_result_def)
next
  case Register
  with assms show ?thesis
    by (auto simp: register_def outcome_simps send_result_def)
qed (use assms in simp_all)

lemma login_refused:
  assumes "accepted Login body"
    and "db w (SelectSingle Users ''email'' (get body ''email'')) s = (r, s1)"
    and "error r = None"
  shows "(\<not> truthy (data r) \<longrightarrow>
            outcome_of w (login body) s = Responded 401 (error_json ''Invalid email or password.''))
       \<and> (truthy (data r)
            \<and> fst (bcrypt_compare w (get body ''password'') (get (data r) ''password'') s1)
                = Inr False \<longrightarrow>
            outcome_of w (login body) s = Responded 401 (error_json ''Invalid email or password.''))"
  using assms by (auto simp: login_def outcome_simps)

text \<open>
  Claim C5, as stated, fails: it makes the status a matter of the kind of operation
  alone, with 400 for a create whose database call fails. A create-announcement whose
  row-count query fails is answered 500, and the same request whose insert fails is
  answered 400.
\<close>

theorem create_status_depends_on_failed_call_counterexample:
  "operation_of CreateAnnouncement = Create
   \<and> outcome_of (failing is_count ''connection lost'')
        (handle no_dates CreateAnnouncement [] hello) empty_store
       = Responded 500 (error_json ''connection lost'')
   \<and> outcome_of (failing is_insert ''connection lost'')
        (handle no_dates CreateAnnouncement [] hello) empty_store
       = Responded 400 (error_json ''connection lost'')"
  by (simp add: failing_def create_announcement_def outcome_simps failed_def send_result_def
      empty_store_def count_or_zero_def)

text \<open>
  Claim C5, amended. On every request on which a database call fails, the response is
  the object \<open>{ error: message }\<close>, with a status determined by the kind of operation
  and, for a create, by the call that failed: 500 for the read of a get-all and for the
  row-count read that starts a create, 404 for a get-by-id, 400 for a failed insert,
  update or delete, and 401 for a login, whose message is always
  \<open>Invalid email or password.\<close>; a login that finds no user or whose password does not
  compare equal is answered 401 too.

  The statement is about the world, not about what the handler happened to call: if the
  request is accepted, bcrypt has done its work, and the database fails the call that
  the operation has to make, then that status is the answer; and no failed call of any
  handler is answered otherwise.
\<close>

theorem failed_call_status:
  "(accepted ep body \<and> prepare w ep body s = Some (payload, s1)
      \<and> error (fst (db w (first_call (operation_of ep) (table_of ep) pid body payload) s1))
          = Some m
      \<longrightarrow> outcome_of w (handle parse ep pid body) s
            = Responded (failure_status (operation_of ep)
                           (first_call (operation_of ep) (table_of ep) pid body payload))
                (error_json (failure_message (operation_of ep) m)))
   \<and> (any_create ep = Some (t, limit) \<and> accepted ep body
      \<and> prepare w ep body s = Some (payload, s1)
      \<and> db w (CountRows t) s1 = (c, s2) \<and> error c = None
      \<and> count_or_zero c + added ep body \<le> int limit
      \<and> error (fst (db w (Insert t payload) s2)) = Some m
      \<longrightarrow> outcome_of w (handle parse ep pid body) s = Responded 400 (error_json m))
   \<and> (accepted Login body
      \<and> db w (SelectSingle Users ''email'' (get body ''email'')) s = (r, s1)
      \<and> error r = None \<and> \<not> truthy (data r)
      \<longrightarrow> outcome_of w (login body) s
            = Responded 401 (error_json ''Invalid email or password.''))
   \<and> (accepted Login body
      \<and> db w (SelectSingle Users ''email'' (get body ''email'')) s = (r, s1)
      \<and> error r = None \<and> truthy (data r)
      \<and> fst (bcrypt_compare w (get body ''password'') (get (data r) ''password'') s1)
          = Inr False
      \<longrightarrow> outcome_of w (login body) s
            = Responded 401 (error_json ''Invalid email or password.''))
   \<and> (DbEv q r \<in> set (trace_of w (handle parse ep pid body) s) \<and> error r = Some m
      \<longrightarrow> outcome_of w (handle parse ep pid body) s
            = Responded (failure_status (operation_of ep) q)
                (error_json (failure_message (operation_of ep) m)))"
  using first_call_fails [of ep body w s payload s1 pid m parse]
    insert_fails [of ep t limit body w s payload s1 c s2 m parse pid]
    login_refused [of body w s r s1]
    db_failure_status [of q r w parse ep pid body s m]
  by blast

theorem failed_call_status_witness:
  "accepted GetUser JUndefined
   \<and> prepare (stand_in 0) GetUser JUndefined one_user = Some (JNull, one_user)
   \<and> error (fst (db (stand_in 0) (SelectSingle Users ''id'' (JStr ''7'')) one_user))
       = Some ''JSON object requested, multiple (or no) rows returned''
   \<and> outcome_of (stand_in 0) (handle no_dates GetUser ''7'' JUndefined) one_user
       = Responded 404 (error_json ''JSON object requested, multiple (or no) rows returned'')
   \<and> any_create CreateAnnouncement = Some (Announcements, 5)
   \<and> error (fst (db (failing is_insert ''connection lost'') (Insert Announcements (JArr [hello]))
                  empty_store))
       = Some ''connection lost''
   \<and> outcome_of (failing is_insert ''connection lost'')
        (handle no_dates CreateAnnouncement [] hello) empty_store
       = Responded 400 (error_json ''connection lost'')
   \<and> accepted Login wrong_login
   \<and> fst (bcrypt_compare (stand_in 0) (get wrong_login ''password'') (get (JObj alice) ''password'')
            one_user)
       = Inr False
   \<and> outcome_of (stand_in 0) (login wrong_login) one_user
       = Responded 401 (error_json ''Invalid email or password.'')"
  using failed_call_status
      [where ep = GetUser and body = JUndefined and w = "stand_in 0" and s = one_user
         and payload = JNull and ?s1.0 = one_user and pid = "''7''" and parse = no_dates
         and m = "''JSON object requested, multiple (or no) rows returned''"]
    failed_call_status
      [where ep = CreateAnnouncement and body = hello and w = "failing is_insert ''connection lost''"
         and s = empty_store and payload = "JArr [hello]" and ?s1.0 = empty_store
         and pid = "[]" and parse = no_dates and m = "''connection lost''"
         and t = Announcements and limit = 5 and ?s2.0 = empty_store
         and c = "\<lparr>data = JNull, error = None, count = Some 0\<rparr>"]
    failed_call_status
      [where body = wrong_login and w = "stand_in 0" and s = one_user and ?s1.0 = one_user
         and r = "ok (JObj alice)"]
  by (simp add: outcome_simps get_user_def login_def create_announcement_def wrong_login_def
      one_user_def stand_in_def failing_def empty_store_def failed_def ok_def send_result_def
      alice_def lookup_def failure_message_def count_or_zero_def hello_def)

section \<open>The expired flag\<close>

text \<open>What the handler computes: the flag is \<open>true\<close> from 16 whole days on.\<close>

lemma floor_days: "15 < (d::int) div 86400000 \<longleftrightarrow> 16 * 86400000 \<le> d"
proof
  assume "15 < d div 86400000"
  then have "16 \<le> d div 86400000" by simp
  then have "16 * 86400000 \<le> (d div 86400000) * 86400000" by simp
  also have "\<dots> \<le> d"
    using div_mult_mod_eq [of d 86400000] pos_mod_sign [of 86400000 d] by linarith
  finally show "16 * 86400000 \<le> d" .
next
  assume "16 * 86400000 \<le> d"
  then have "(16 * 86400000) div 86400000 \<le> d div 86400000" by (rule zdiv_mono1) simp
  then show "15 < d div 86400000" by simp
qed

lemma expired_true_iff: "expired now (Some t) = ''true'' \<longleftrightarrow> now - t \<ge> 16 * day_ms"
  using floor_days [of "now - t"] by (simp add: expired_def diffDays_def day_ms_def)

lemma get_all_announcements_rows:
  assumes "error (fst (db w (SelectAll Announcements) s)) = None"
    and "data (fst (db w (SelectAll Announcements) s)) = JArr items"
    and "\<not> list_ex nullish items"
  shows "outcome_of w (get_all_announcements parse) s =
           Responded 200
             (JArr (map (processed parse
                           (fst (clock w (snd (db w (SelectAll Announcements) s))))) items))"
  using assms by (simp add: get_all_announcements_def outcome_simps)

text \<open>
  Claim C2 says that \<open>expired\<close> is \<open>true\<close> exactly when more than 15 days have passed
  since \<open>created_at\<close>. The handler rounds the elapsed time down to whole days before it
  compares with 15: an announcement created at the epoch and read 15 days and 12 hours
  later (1339200000 ms) has been there for more than 15 days, and is served with
  \<open>expired: "false"\<close>.
\<close>

theorem announcement_aged_15_days_12_hours_not_expired: 
  "outcome_of (stand_in 1339200000) (get_all_announcements epoch_only) one_announcement
     = Responded 200
         (JArr [JObj [(''id'', JNum 1), (''title'', JStr ''Hello''),
                      (''created_at'', JStr ''1970-01-01T00:00:00.000Z''),
                      (''expired'', JStr ''false'')]])
   \<and> 1339200000 - 0 > 15 * day_ms"
  by (simp add: outcome_simps get_all_announcements_def stand_in_def one_announcement_def
      empty_store_def ok_def processed_def expired_def diffDays_def day_ms_def epoch_only_def
      set_field_def lookup_def)

section \<open>Hashing of passwords\<close>


lemma create_user_persists_hash:
  assumes "Insert t rows \<in> set (db_calls (trace_of w (create_user body) s))"
  shows "\<exists>h. HashEv (get body ''password'') 10 (Inr h) \<in> set (trace_of w (create_user body) s)
           \<and> rows = JArr [JObj (set_field ''password'' (JStr h)
                                  (omit ''password'' (own_fields body)))]"
  using assms
  by (auto simp: create_user_def trace_simps send_result_def
      split: if_splits sum.splits option.splits)

lemma update_user_hashes_truthy:
  assumes "truthy (get body ''password'')"
    and "Update t d c v \<in> set (db_calls (trace_of w (update_user body) s))"
  shows "\<exists>h. HashEv (get body ''password'') 10 (Inr h) \<in> set (trace_of w (update_user body) s)
           \<and> get d ''password'' = JStr h"
proof -
  from assms(1) obtain fs where b: "body = JObj fs" by (cases body) auto
  then have p: "lookup (omit ''id'' fs) ''password'' = lookup fs ''password''"
    by (simp add: lookup_omit)
  from assms b p show ?thesis
    by (auto simp: update_user_def trace_simps send_result_def lookup_set_field
        split: if_splits sum.splits option.splits)
qed

text \<open>
  Claim C6 says that a user update that carries a password persists the bcrypt hash and
  never the plaintext. update-user hashes the password only when it is truthy: an
  update whose password is the empty string makes no bcrypt call at all and sends the
  empty string itself to the password column.
\<close>

theorem update_user_persists_empty_password:
  "db_calls (trace_of (stand_in 0) (update_user empty_password_update) one_user)
     = [Update Users (JObj [(''password'', JStr '''')]) ''id'' (JNum 1)]
   \<and> length (trace_of (stand_in 0) (update_user empty_password_update) one_user) = 1
   \<and> get (hd (final (stand_in 0) (update_user empty_password_update) one_user Users)) ''password''
       = JStr ''''"
  by (simp add: trace_simps final_simps update_user_def empty_password_update_def one_user_def
      stand_in_def empty_store_def omit_def lookup_def send_result_def ok_def merge_def
      set_field_def alice_def)

section \<open>The routes\<close>

lemmas routing_defs = serve_def dispatch_def app_def userRouter_def contentRouter_def
  announcementRouter_def registeredEmailRouter_def authRouter_def strip_mount_def loose_def
  lower_def

lemma find_route_mem:
  "find_route rs m segs = Some (ep, bound) \<Longrightarrow> ep \<in> set (map (\<lambda>r. snd (snd r)) rs)"
  by (induction rs m segs rule: find_route.induct) (auto split: if_splits option.splits)

lemma find_mount_found:
  "find_mount ms m segs = Some (prefix, ep, bound)
   \<Longrightarrow> \<exists>router rest. (prefix, router) \<in> set ms
         \<and> find_route router m ([] # rest) = Some (ep, bound)"
proof (induction ms m segs rule: find_mount.induct)
  case (1 m segs)
  then show ?case by simp
next
  case (2 prefix' router ms m segs)
  show ?case
  proof (cases "strip_mount (loose (split_path prefix')) segs")
    case None
    with 2 show ?thesis by auto
  next
    case (Some rel)
    then obtain rest where rel: "rel = [] # rest"
      by (auto simp: strip_mount_def split: if_splits)
    show ?thesis
    proof (cases "find_route router m rel")
      case None
      with 2 Some show ?thesis by auto
    next
      case (Some found)
      with 2 \<open>strip_mount (loose (split_path prefix')) segs = Some rel\<close>
      have "prefix = prefix'" and "find_route router m rel = Some (ep, bound)"
        by (auto split: prod.splits)
      with rel show ?thesis by auto
    qed
  qed
qed

lemma find_mount_mem:
  "find_mount ms m segs = Some (prefix, ep, bound)
   \<Longrightarrow> \<exists>router. (prefix, router) \<in> set ms \<and> ep \<in> set (map (\<lambda>r. snd (snd r)) router)"
  using find_mount_found [of ms m segs prefix ep bound] find_route_mem by blast

lemma auth_only_login:
  assumes "dispatch m path = Some (''/v1/auth'', ep, bound)"
  shows "ep = Login"
proof -
  from assms have "find_mount app m (split_path path) = Some (''/v1/auth'', ep, bound)"
    by (simp only: dispatch_def)
  from find_mount_mem [OF this] obtain router
    where "(''/v1/auth'', router) \<in> set app" and ep: "ep \<in> set (map (\<lambda>r. snd (snd r)) router)"
    by blast
  then have "router = authRouter" by (simp add: app_def)
  with ep show ?thesis by (simp add: authRouter_def)
qed

lemma registered_emails_endpoints:
  assumes "dispatch m path = Some (''/v1/registered-emails'', ep, bound)"
  shows "ep \<in> {GetAllRegisteredEmails, GetRegisteredEmail, Register, DeleteEmail, DeleteEmails}"
proof -
  from assms
  have "find_mount app m (split_path path) = Some (''/v1/registered-emails'', ep, bound)"
    by (simp only: dispatch_def)
  from find_mount_mem [OF this] obtain router
    where "(''/v1/registered-emails'', router) \<in> set app"
      and ep: "ep \<in> set (map (\<lambda>r. snd (snd r)) router)"
    by blast
  then have "router = registeredEmailRouter" by (simp add: app_def)
  with ep show ?thesis by (simp add: registeredEmailRouter_def)
qed

lemma strip_mount_head: "strip_mount prefix segs = Some rel \<Longrightarrow> \<exists>rest. rel = [] # rest"
  by (auto simp: strip_mount_def split: if_splits)

lemma loose_head: "loose ([] # rest) = [] # tl (loose ([] # rest))"
  by (cases rest) (auto simp: loose_def)

lemma find_route_never_get_content:
  "find_route contentRouter m ([] # rest) \<noteq> Some (GetContent, bound)"
proof -
  obtain xs where l: "loose ([] # rest) = [] # xs" using loose_head [of rest] by blast
  show ?thesis
    by (cases m) (auto simp: contentRouter_def l loose_def lower_def split: option.splits)
qed

lemma content_get_by_id_unreachable: "dispatch m path \<noteq> Some (prefix, GetContent, bound)"
proof
  assume "dispatch m path = Some (prefix, GetContent, bound)"
  then have "find_mount app m (split_path path) = Some (prefix, GetContent, bound)"
    by (simp only: dispatch_def)
  from find_mount_found [OF this] obtain router rest
    where r: "(prefix, router) \<in> set app"
      and f: "find_route router m ([] # rest) = Some (GetContent, bound)"
    by blast
  from r have "router = contentRouter \<or> router \<in> {userRouter, announcementRouter,
      registeredEmailRouter, authRouter}"
    by (auto simp: app_def)
  then show False
  proof
    assume "router = contentRouter"
    with f find_route_never_get_content show False by blast
  next
    assume "router \<in> {userRouter, announcementRouter, registeredEmailRouter, authRouter}"
    with find_route_mem [OF f] show False
      by (auto simp: userRouter_def announcementRouter_def registeredEmailRouter_def
          authRouter_def)
  qed
qed

text \<open>
  Claim C7, as stated, fails: it gives all six operations to each of the five resource
  groups, and no request is dispatched through the auth mount to a get-all (the auth
  router has the login route only).
\<close>

theorem auth_router_has_no_get_all_counterexample: "\<not> exposes ''/v1/auth'' GetAll"
  by (auto simp: exposes_def dest: auth_only_login)

text \<open>
  Claim C7, amended. The five routers are mounted under the prefix \<open>/v1/\<close>, and requests
  reach the handlers as follows. Users and announcements expose all six operations
  (get-all, get-by-id, create, update-by-id, delete-by-id, bulk-delete-by-ids); content
  posts expose get-all, create, update-by-id, delete-by-id and bulk-delete-by-ids;
  registered emails expose get-all, get-by-id, create, delete-by-id and
  bulk-delete-by-ids, and no update; auth exposes the login and none of the six.
\<close>

theorem routers_expose:
  "list_all versioned (map fst app)
   \<and> serve parse GET ''/v1/users/get-all-users'' body = Some get_all_users
   \<and> serve parse GET ''/v1/users/get-user/7'' body = Some (get_user ''7'')
   \<and> serve parse POST ''/v1/users/create-user'' body = Some (create_user body)
   \<and> serve parse PUT ''/v1/users/update-user'' body = Some (update_user body)
   \<and> serve parse DELETE ''/v1/users/delete-user/7'' body = Some (delete_user ''7'')
   \<and> serve parse DELETE ''/v1/users/delete-users'' body = Some (delete_users body)
   \<and> serve parse GET ''/v1/announcements/get-all-announcements'' body
       = Some (get_all_announcements parse)
   \<and> serve parse GET ''/v1/announcements/get-announcement/7'' body = Some (get_announcement ''7'')
   \<and> serve parse POST ''/v1/announcements/create-announcement'' body
       = Some (create_announcement body)
   \<and> serve parse PUT ''/v1/announcements/update-announcement'' body
       = Some (update_announcement body)
   \<and> serve parse DELETE ''/v1/announcements/delete-announcement/7'' body
       = Some (delete_announcement ''7'')
   \<and> serve parse DELETE ''/v1/announcements/delete-announcements'' body
       = Some (delete_announcements body)
   \<and> serve parse GET ''/v1/content/get-all-contents'' body = Some get_all_contents
   \<and> serve parse POST ''/v1/content/create-post'' body = Some (create_post body)
   \<and> serve parse PUT ''/v1/content/update-post'' body = Some (update_post body)
   \<and> serve parse DELETE ''/v1/content/delete-post/7'' body = Some (delete_post ''7'')
   \<and> serve parse DELETE ''/v1/content/delete-posts'' body = Some (delete_posts body)
   \<and> serve parse GET ''/v1/registered-emails/get-all-registered-emails'' body
       = Some get_all_registered_emails
   \<and> serve parse GET ''/v1/registered-emails/get-registered-email/7'' body
       = Some (get_registered_email ''7'')
   \<and> serve parse POST ''/v1/registered-emails/register'' body = Some (register body)
   \<and> serve parse DELETE ''/v1/registered-emails/delete-email/7'' body = Some (delete_email ''7'')
   \<and> serve parse DELETE ''/v1/registered-emails/delete-emails'' body = Some (delete_emails body)
   \<and> \<not> exposes ''/v1/registered-emails'' UpdateById
   \<and> serve parse POST ''/v1/auth/login'' body = Some (login body)
   \<and> \<not> exposes ''/v1/auth'' GetAll \<and> \<not> exposes ''/v1/auth'' GetById
   \<and> \<not> exposes ''/v1/auth'' Create \<and> \<not> exposes ''/v1/auth'' UpdateById
   \<and> \<not> exposes ''/v1/auth'' DeleteById \<and> \<not> exposes ''/v1/auth'' BulkDeleteByIds"
proof -
  have neg: "\<not> exposes ''/v1/registered-emails'' UpdateById"
    "\<not> exposes ''/v1/auth'' GetAll" "\<not> exposes ''/v1/auth'' GetById"
    "\<not> exposes ''/v1/auth'' Create" "\<not> exposes ''/v1/auth'' UpdateById"
    "\<not> exposes ''/v1/auth'' DeleteById" "\<not> exposes ''/v1/auth'' BulkDeleteByIds"
    by (auto simp: exposes_def dest: auth_only_login registered_emails_endpoints)
  have pos: "list_all versioned (map fst app)"
    by (simp add: app_def versioned_def)
  show ?thesis
    using neg pos by (simp add: routing_defs)
qed

theorem routers_expose_witness:
  "serve no_dates POST ''/v1/auth/login'' alice_login = Some (login alice_login)
   \<and> serve no_dates GET ''/v1/users/get-user/7'' alice_login = Some (get_user ''7'')
   \<and> serve no_dates DELETE ''/v1/announcements/delete-announcements'' alice_login
       = Some (delete_announcements alice_login)"
  using routers_expose [of no_dates alice_login] by simp

end
